theory Spec2Isabelle
  imports Main "HOL-Library.Word"
begin

unbundle bit_operations_syntax

section \<open>Failure modes\<close>

text \<open>
  The error taxonomy of the specification, and after it the ways the C++ sources
  themselves leave normal control flow: \<open>std::map::at\<close> throwing
  \<open>std::out_of_range\<close>, the dereference of a null pointer, and an index past the end
  of an array or vector.
\<close>

datatype error =
    ConflictError
  | UnsatisfiableRequireError
  | NotFoundError
  | TypeMismatchError
  | InitializationFailure
  | StdOutOfRange
  | NullDereference
  | IndexOutOfBounds

definition bindE :: "error + 'a \<Rightarrow> ('a \<Rightarrow> error + 'b) \<Rightarrow> error + 'b" where
  "bindE r f = (case r of Inl e \<Rightarrow> Inl e | Inr v \<Rightarrow> f v)"

section \<open>capsaicin\_internal\_types.h\<close>

subsection \<open>BitMask\<close>

text \<open>
  \<open>BitMask<T>\<close> holds one value of the underlying integer type \<open>'u\<close> of the
  enumeration \<open>T\<close>; the operators are those of an unsigned machine integer. An
  enumerator enters every operator through \<open>static_cast<UnderlyingT>(type)\<close>, so
  the operators below take that underlying value.
\<close>

datatype 'u BitMask = BitMask (bm_mask: 'u)

definition BitMask_default :: "'a::len word BitMask" where
  "BitMask_default = BitMask 0"

definition BitMask_of :: "'a::len word \<Rightarrow> 'a word BitMask" where
  "BitMask_of type = BitMask type"

definition bm_or_T :: "'a::len word BitMask \<Rightarrow> 'a word \<Rightarrow> 'a word BitMask" where
  "bm_or_T m type = BitMask (bm_mask m OR type)"

definition bm_or :: "'a::len word BitMask \<Rightarrow> 'a word BitMask \<Rightarrow> 'a word BitMask" where
  "bm_or m other = BitMask (bm_mask m OR bm_mask other)"

definition bm_xor_T :: "'a::len word BitMask \<Rightarrow> 'a word \<Rightarrow> 'a word BitMask" where
  "bm_xor_T m type = BitMask (bm_mask m XOR type)"

definition bm_xor :: "'a::len word BitMask \<Rightarrow> 'a word BitMask \<Rightarrow> 'a word BitMask" where
  "bm_xor m other = BitMask (bm_mask m XOR bm_mask other)"

definition bm_and_T :: "'a::len word BitMask \<Rightarrow> 'a word \<Rightarrow> bool" where
  "bm_and_T m type = ((bm_mask m AND type) \<noteq> 0)"

definition bm_eq_T :: "'a::len word BitMask \<Rightarrow> 'a word \<Rightarrow> bool" where
  "bm_eq_T m type = (bm_mask m = type)"

definition bm_ne_T :: "'a::len word BitMask \<Rightarrow> 'a word \<Rightarrow> bool" where
  "bm_ne_T m type = (bm_mask m \<noteq> type)"

subsection \<open>Access and Flags enumerations\<close>

datatype Access = Read | Write | ReadWrite

fun Access_val :: "Access \<Rightarrow> 8 word" where
  "Access_val Read = 0"
| "Access_val Write = 1"
| "Access_val ReadWrite = 2"

text \<open>\<open>SharedTexture::Flags\<close>\<close>

datatype TextureFlags =
  TF_None | TF_Clear | TF_Accumulate | TF_Optional | TF_OptionalDiscard | TF_OptionalKeep

fun TextureFlags_val :: "TextureFlags \<Rightarrow> 8 word" where
  "TextureFlags_val TF_None = 0"
| "TextureFlags_val TF_Clear = push_bit 1 1"
| "TextureFlags_val TF_Accumulate = push_bit 2 1"
| "TextureFlags_val TF_Optional = push_bit 3 1"
| "TextureFlags_val TF_OptionalDiscard = push_bit 4 1"
| "TextureFlags_val TF_OptionalKeep = push_bit 5 1"

text \<open>\<open>SharedBuffer::Flags\<close>\<close>

datatype BufferFlags =
  BF_None | BF_Clear | BF_Accumulate | BF_Optional | BF_OptionalDiscard | BF_OptionalKeep
  | BF_Allocate

fun BufferFlags_val :: "BufferFlags \<Rightarrow> 8 word" where
  "BufferFlags_val BF_None = 0"
| "BufferFlags_val BF_Clear = push_bit 1 1"
| "BufferFlags_val BF_Accumulate = push_bit 2 1"
| "BufferFlags_val BF_Optional = push_bit 3 1"
| "BufferFlags_val BF_OptionalDiscard = push_bit 4 1"
| "BufferFlags_val BF_OptionalKeep = push_bit 5 1"
| "BufferFlags_val BF_Allocate = push_bit 6 1"

subsection \<open>Shared resource requests\<close>

datatype uint2 = uint2 (dim_x: "32 word") (dim_y: "32 word")

text \<open>\<open>DXGI_FORMAT\<close> is an enumeration of the graphics API; \<open>DXGI_FORMAT_UNKNOWN\<close> is 0.\<close>

type_synonym DXGI_FORMAT = "32 word"

definition DXGI_FORMAT_UNKNOWN :: DXGI_FORMAT where
  "DXGI_FORMAT_UNKNOWN = 0"

record SharedTexture =
  tex_name :: string
  tex_access :: "8 word BitMask"
  tex_flags :: "8 word BitMask"
  tex_format :: DXGI_FORMAT
  tex_dimensions :: uint2
  tex_mips :: bool
  tex_backup_name :: string
  tex_require :: string

text \<open>A \<open>SharedTexture\<close> with every member at its default initialiser.\<close>

definition SharedTexture_default :: "string \<Rightarrow> SharedTexture" where
  "SharedTexture_default n =
     \<lparr> tex_name = n, tex_access = BitMask_of (Access_val Read),
       tex_flags = BitMask_of (TextureFlags_val TF_None), tex_format = DXGI_FORMAT_UNKNOWN,
       tex_dimensions = uint2 0 0, tex_mips = False, tex_backup_name = [],
       tex_require = [] \<rparr>"

record SharedBuffer =
  buf_name :: string
  buf_access :: "8 word BitMask"
  buf_flags :: "8 word BitMask"
  buf_size :: "64 word"
  buf_stride :: "32 word"
  buf_require :: string

definition SharedBuffer_default :: "string \<Rightarrow> SharedBuffer" where
  "SharedBuffer_default n =
     \<lparr> buf_name = n, buf_access = BitMask_of (Access_val Read),
       buf_flags = BitMask_of (BufferFlags_val BF_None), buf_size = 0, buf_stride = 0,
       buf_require = [] \<rparr>"

subsection \<open>Options\<close>

text \<open>
  A \<open>float\<close> is kept as its 32-bit pattern: the sources move floats around and
  reinterpret their bits, and the arithmetic on them is done by library functions
  that are passed in where a function needs them.
\<close>

type_synonym float32 = "32 word"

text \<open>\<open>std::variant<bool, uint32_t, int32_t, uint8_t, float, std::string>\<close>\<close>

datatype Option =
    OBool bool
  | OUInt32 "32 word"
  | OInt32 "32 word"
  | OUInt8 "8 word"
  | OFloat float32
  | OString string

type_synonym RenderOptionList = "string \<rightharpoonup> Option"

text \<open>\<open>options.at(name)\<close>: \<open>std::map::at\<close> throws \<open>std::out_of_range\<close> for a missing key.\<close>

definition map_at :: "RenderOptionList \<Rightarrow> string \<Rightarrow> error + Option" where
  "map_at opts n = (case opts n of None \<Rightarrow> Inl StdOutOfRange | Some v \<Rightarrow> Inr v)"

text \<open>\<open>std::get_if<T>\<close>: a pointer to the stored value, null when another kind is stored.\<close>

fun get_if_bool :: "Option \<Rightarrow> bool option" where
  "get_if_bool (OBool b) = Some b"
| "get_if_bool _ = None"

fun get_if_uint32 :: "Option \<Rightarrow> 32 word option" where
  "get_if_uint32 (OUInt32 v) = Some v"
| "get_if_uint32 _ = None"

fun get_if_uint8 :: "Option \<Rightarrow> 8 word option" where
  "get_if_uint8 (OUInt8 v) = Some v"
| "get_if_uint8 _ = None"

fun get_if_float :: "Option \<Rightarrow> float32 option" where
  "get_if_float (OFloat v) = Some v"
| "get_if_float _ = None"

text \<open>The unary \<open>*\<close> applied to the pointer \<open>std::get_if\<close> returned, with no null check.\<close>

definition deref :: "'a option \<Rightarrow> error + 'a" where
  "deref p = (case p of None \<Rightarrow> Inl NullDereference | Some v \<Rightarrow> Inr v)"

text \<open>
  \<open>RENDER_OPTION_GET(variable, ret, options)\<close>, once for each \<open>decltype\<close> of a
  member the sources read: the value assigned to \<open>ret.variable\<close>.
\<close>

definition RENDER_OPTION_GET_bool :: "string \<Rightarrow> RenderOptionList \<Rightarrow> error + bool" where
  "RENDER_OPTION_GET_bool variable opts =
     bindE (map_at opts variable) (\<lambda>v. deref (get_if_bool v))"

definition RENDER_OPTION_GET_uint32 :: "string \<Rightarrow> RenderOptionList \<Rightarrow> error + 32 word" where
  "RENDER_OPTION_GET_uint32 variable opts =
     bindE (map_at opts variable) (\<lambda>v. deref (get_if_uint32 v))"

definition RENDER_OPTION_GET_uint8 :: "string \<Rightarrow> RenderOptionList \<Rightarrow> error + 8 word" where
  "RENDER_OPTION_GET_uint8 variable opts =
     bindE (map_at opts variable) (\<lambda>v. deref (get_if_uint8 v))"

definition RENDER_OPTION_GET_float :: "string \<Rightarrow> RenderOptionList \<Rightarrow> error + float32" where
  "RENDER_OPTION_GET_float variable opts =
     bindE (map_at opts variable) (\<lambda>v. deref (get_if_float v))"

section \<open>tone\_mapping: options\<close>

record ToneMapping_RenderOptions =
  tonemap_enable :: bool
  tonemap_operator :: "8 word"

definition ToneMapping_convertOptions ::
  "RenderOptionList \<Rightarrow> error + ToneMapping_RenderOptions" where
  "ToneMapping_convertOptions opts =
     bindE (RENDER_OPTION_GET_bool ''tonemap_enable'' opts) (\<lambda>en.
     bindE (RENDER_OPTION_GET_uint8 ''tonemap_operator'' opts) (\<lambda>op.
     Inr \<lparr> tonemap_enable = en, tonemap_operator = op \<rparr>))"

section \<open>fsr: options\<close>

datatype FSRVersion = Auto | FSR2 | FSR3 | FSR4

fun FSRVersion_val :: "FSRVersion \<Rightarrow> 8 word" where
  "FSRVersion_val Auto = 0"
| "FSRVersion_val FSR2 = 1"
| "FSRVersion_val FSR3 = 2"
| "FSRVersion_val FSR4 = 3"

record FSR_RenderOptions =
  taa_enable :: bool
  fsr_version :: "8 word"
  fsr_sharpen_enable :: bool
  fsr_sharpen_sharpness :: float32

definition FSR_convertOptions :: "RenderOptionList \<Rightarrow> error + FSR_RenderOptions" where
  "FSR_convertOptions opts =
     bindE (RENDER_OPTION_GET_bool ''taa_enable'' opts) (\<lambda>taa.
     bindE (RENDER_OPTION_GET_uint8 ''fsr_version'' opts) (\<lambda>ver.
     let ver' = min ver (FSRVersion_val FSR4) in
     bindE (RENDER_OPTION_GET_bool ''fsr_sharpen_enable'' opts) (\<lambda>sh.
     bindE (RENDER_OPTION_GET_float ''fsr_sharpen_sharpness'' opts) (\<lambda>sharpness.
     Inr \<lparr> taa_enable = taa, fsr_version = ver', fsr_sharpen_enable = sh,
           fsr_sharpen_sharpness = sharpness \<rparr>))))"

text \<open>
  \<open>std::array<bool, 4>\<close> and its \<open>operator[]\<close>, which has no defined result for an
  index of 4 or more.
\<close>

datatype bool4 = bool4 bool bool bool bool

fun bool4_at :: "bool4 \<Rightarrow> nat \<Rightarrow> error + bool" where
  "bool4_at (bool4 a b c d) i =
     (if i = 0 then Inr a else if i = 1 then Inr b else if i = 2 then Inr c
      else if i = 3 then Inr d else Inl IndexOutOfBounds)"

fun bool4_set :: "bool4 \<Rightarrow> nat \<Rightarrow> bool \<Rightarrow> error + bool4" where
  "bool4_set (bool4 a b c d) i v =
     (if i = 0 then Inr (bool4 v b c d) else if i = 1 then Inr (bool4 a v c d)
      else if i = 2 then Inr (bool4 a b v d) else if i = 3 then Inr (bool4 a b c v)
      else Inl IndexOutOfBounds)"

section \<open>lights\_shared.h\<close>

datatype float3 = float3 float32 float32 float32

datatype float4 = float4 (f4_x: float32) (f4_y: float32) (f4_z: float32) (f4_w: float32)

definition float4_xyz_w :: "float3 \<Rightarrow> float32 \<Rightarrow> float4" where
  "float4_xyz_w v w = (case v of float3 a b c \<Rightarrow> float4 a b c w)"

text \<open>\<open>glm::uintBitsToFloat\<close> and \<open>asuint\<close> keep the 32 bits and change the type only.\<close>

definition uintBitsToFloat :: "32 word \<Rightarrow> float32" where
  "uintBitsToFloat u = u"

definition asuint :: "float32 \<Rightarrow> 32 word" where
  "asuint f = f"

definition UINT_MAX :: "32 word" where
  "UINT_MAX = 0xFFFFFFFF"

text \<open>The literals \<open>0.0F\<close>, \<open>1.0F\<close> and \<open>0.001F\<close> as IEEE-754 single precision patterns.\<close>

definition f_zero :: float32 where
  "f_zero = 0"

definition f_one :: float32 where
  "f_one = 0x3F800000"

definition f_milli :: float32 where
  "f_milli = 0x3A83126F"

text \<open>\<open>0.5F\<close> and \<open>80.0F\<close>\<close>

definition f_half :: float32 where
  "f_half = 0x3F000000"

definition f_eighty :: float32 where
  "f_eighty = 0x42A00000"

text \<open>\<open>enum LightType\<close>: the first enumerator is given, the others count up from it.\<close>

definition kLight_Point :: "32 word" where
  "kLight_Point = 0xFFF0FF80"

definition kLight_Spot :: "32 word" where
  "kLight_Spot = kLight_Point + 1"

definition kLight_Direction :: "32 word" where
  "kLight_Direction = kLight_Spot + 1"

definition kLight_Environment :: "32 word" where
  "kLight_Environment = kLight_Direction + 1"

definition kLight_Area :: "32 word" where
  "kLight_Area = kLight_Environment + 1"

record Light =
  radiance :: float4
  v1 :: float4
  v2 :: float4
  v3 :: float4

text \<open>\<open>Light light = {}\<close>: every member zero.\<close>

definition Light_zero :: Light where
  "Light_zero =
     \<lparr> radiance = float4 0 0 0 0, v1 = float4 0 0 0 0, v2 = float4 0 0 0 0,
       v3 = float4 0 0 0 0 \<rparr>"

definition get_light_type :: "Light \<Rightarrow> 32 word" where
  "get_light_type light =
     (let index = asuint (f4_w (v3 light))
      in if index < kLight_Point then kLight_Area else index)"

text \<open>
  The floating-point library functions the sources call, and the arithmetic operators
  on \<open>float\<close> they use.
\<close>

record float_ops =
  cosf :: "float32 \<Rightarrow> float32"
  sinf :: "float32 \<Rightarrow> float32"
  tanf :: "float32 \<Rightarrow> float32"
  f_neg :: "float32 \<Rightarrow> float32"
  f_add :: "float32 \<Rightarrow> float32 \<Rightarrow> float32"
  f_sub :: "float32 \<Rightarrow> float32 \<Rightarrow> float32"
  f_mul :: "float32 \<Rightarrow> float32 \<Rightarrow> float32"
  f_div :: "float32 \<Rightarrow> float32 \<Rightarrow> float32"
  f_max :: "float32 \<Rightarrow> float32 \<Rightarrow> float32"
  normalize :: "float3 \<Rightarrow> float3"

definition MakeAreaLight :: "float3 \<Rightarrow> float3 \<Rightarrow> float3 \<Rightarrow> float3 \<Rightarrow> Light" where
  "MakeAreaLight rad vertex1 vertex2 vertex3 =
     Light_zero
       \<lparr> radiance := float4_xyz_w rad (uintBitsToFloat UINT_MAX),
         v1 := float4_xyz_w vertex1 f_zero,
         v2 := float4_xyz_w vertex2 f_zero,
         v3 := float4_xyz_w vertex3 f_zero \<rparr>"

definition MakePointLight :: "float3 \<Rightarrow> float3 \<Rightarrow> float32 \<Rightarrow> Light" where
  "MakePointLight intensity position rng =
     Light_zero
       \<lparr> radiance := float4_xyz_w intensity (uintBitsToFloat UINT_MAX),
         v1 := float4_xyz_w position rng,
         v3 := float4_xyz_w (float3 f_zero f_zero f_zero) (uintBitsToFloat kLight_Point) \<rparr>"

definition MakeSpotLight ::
  "float_ops \<Rightarrow> float3 \<Rightarrow> float3 \<Rightarrow> float32 \<Rightarrow> float3 \<Rightarrow> float32 \<Rightarrow> float32 \<Rightarrow> Light" where
  "MakeSpotLight fp intensity position rng direction outerConeAngle innerConeAngle =
     (let cosOuter = f_neg fp (cosf fp outerConeAngle);
          lightAngleScale =
            f_div fp f_one (f_max fp f_milli (f_add fp (cosf fp innerConeAngle) cosOuter));
          lightAngleOffset = f_mul fp cosOuter lightAngleScale;
          sinAngle = sinf fp outerConeAngle;
          tanAngle = tanf fp outerConeAngle
      in Light_zero
           \<lparr> radiance := float4_xyz_w intensity (uintBitsToFloat UINT_MAX),
             v1 := float4_xyz_w position rng,
             v2 := float4_xyz_w (normalize fp direction) sinAngle,
             v3 := float4 lightAngleScale lightAngleOffset tanAngle
                     (uintBitsToFloat kLight_Spot) \<rparr>)"

definition MakeDirectionalLight :: "float_ops \<Rightarrow> float3 \<Rightarrow> float3 \<Rightarrow> float32 \<Rightarrow> Light" where
  "MakeDirectionalLight fp rad direction rng =
     Light_zero
       \<lparr> radiance := float4_xyz_w rad (uintBitsToFloat UINT_MAX),
         v2 := float4_xyz_w (normalize fp direction) rng,
         v3 := float4_xyz_w (float3 f_zero f_zero f_zero)
                 (uintBitsToFloat kLight_Direction) \<rparr>"

definition MakeEnvironmentLight :: "32 word \<Rightarrow> 32 word \<Rightarrow> Light" where
  "MakeEnvironmentLight mips width =
     Light_zero
       \<lparr> radiance := float4_xyz_w (float3 (uintBitsToFloat mips) (uintBitsToFloat width) f_zero)
                       (uintBitsToFloat UINT_MAX),
         v3 := float4_xyz_w (float3 f_zero f_zero f_zero)
                 (uintBitsToFloat kLight_Environment) \<rparr>"

section \<open>The framework context\<close>

text \<open>Handles of the graphics library, by what the sources read of them.\<close>

record GfxTexture =
  gfxtex_name :: string
  gfxtex_format :: DXGI_FORMAT

record GfxBuffer =
  gfxbuf_count :: "32 word"
  gfxbuf_stride :: "32 word"
  gfxbuf_data :: "32 word list"
  gfxbuf_name :: string

text \<open>
  Modelled from the spec: \<open>CapsaicinInternal\<close>, the orchestrator the techniques and
  components are handed, is declared in \<open>capsaicin_internal.h\<close>, which is not among
  the sources. The record holds what the member functions called by the sources read:
  the merged option table, the registered components, this frame's resolved shared
  resources by name, the dimensions and the per-frame change flags.
  \<open>ctx_renderScaleBelowOne\<close> is the outcome of the floating-point comparison
  \<open>getRenderDimensionsScale() < 1.0F\<close>.
\<close>

record CapsaicinInternal =
  ctx_options :: RenderOptionList
  ctx_components :: "string list"
  ctx_sharedTextures :: "string \<rightharpoonup> GfxTexture"
  ctx_sharedBuffers :: "string \<rightharpoonup> GfxBuffer"
  ctx_renderDimensions :: uint2
  ctx_windowDimensions :: uint2
  ctx_renderDimensionsUpdated :: bool
  ctx_windowDimensionsUpdated :: bool
  ctx_renderScaleBelowOne :: bool
  ctx_cameraChanged :: bool
  ctx_sceneUpdated :: bool
  ctx_environmentMapUpdated :: bool
  ctx_frameIndex :: "32 word"
  ctx_currentDebugView :: string

text \<open>A context with no options, components or resources, to build concrete inputs from.\<close>

definition empty_context :: CapsaicinInternal where
  "empty_context =
     \<lparr> ctx_options = Map.empty, ctx_components = [], ctx_sharedTextures = Map.empty,
       ctx_sharedBuffers = Map.empty, ctx_renderDimensions = uint2 1280 720,
       ctx_windowDimensions = uint2 1280 720, ctx_renderDimensionsUpdated = False,
       ctx_windowDimensionsUpdated = False, ctx_renderScaleBelowOne = False,
       ctx_cameraChanged = False, ctx_sceneUpdated = False,
       ctx_environmentMapUpdated = False, ctx_frameIndex = 0, ctx_currentDebugView = [] \<rparr>"

text \<open>Modelled from the spec: whether a component of that name is registered (section 6).\<close>

definition hasComponent :: "CapsaicinInternal \<Rightarrow> string \<Rightarrow> bool" where
  "hasComponent c n = (n \<in> set (ctx_components c))"

text \<open>
  Modelled from the spec: \<open>getOption<T>(name)\<close> is the \<open>get\<close> of the option
  registry (section 4.1), which fails with \<open>NotFoundError\<close> for an unknown name and
  with \<open>TypeMismatchError\<close> when the requested kind is not the stored kind.
  \<open>hasOption<T>(name)\<close> holds when \<open>getOption<T>(name)\<close> succeeds.
\<close>

definition getOption_bool :: "CapsaicinInternal \<Rightarrow> string \<Rightarrow> error + bool" where
  "getOption_bool c n =
     (case ctx_options c n of
        None \<Rightarrow> Inl NotFoundError
      | Some v \<Rightarrow> (case get_if_bool v of None \<Rightarrow> Inl TypeMismatchError | Some b \<Rightarrow> Inr b))"

text \<open>Modelled from the spec: \<open>get\<close> of section 4.1 at the kind \<open>uint32_t\<close>.\<close>

definition getOption_uint32 :: "CapsaicinInternal \<Rightarrow> string \<Rightarrow> error + 32 word" where
  "getOption_uint32 c n =
     (case ctx_options c n of
        None \<Rightarrow> Inl NotFoundError
      | Some v \<Rightarrow> (case get_if_uint32 v of None \<Rightarrow> Inl TypeMismatchError | Some b \<Rightarrow> Inr b))"

text \<open>Modelled from the spec: the name is registered with the kind \<open>bool\<close> (section 4.1).\<close>

definition hasOption_bool :: "CapsaicinInternal \<Rightarrow> string \<Rightarrow> bool" where
  "hasOption_bool c n =
     (case ctx_options c n of None \<Rightarrow> False | Some v \<Rightarrow> get_if_bool v \<noteq> None)"

text \<open>
  Modelled from the spec: the resource lookup surface of section 6,
  \<open>hasResource(name)\<close> and \<open>getResource(name)\<close>, the latter failing with
  \<open>NotFoundError\<close> for a name that is not in this frame's plan.
\<close>

definition hasSharedTexture :: "CapsaicinInternal \<Rightarrow> string \<Rightarrow> bool" where
  "hasSharedTexture c n = (ctx_sharedTextures c n \<noteq> None)"

text \<open>Modelled from the spec: \<open>getResource(name)\<close> of section 6, for textures.\<close>

definition getSharedTexture :: "CapsaicinInternal \<Rightarrow> string \<Rightarrow> error + GfxTexture" where
  "getSharedTexture c n =
     (case ctx_sharedTextures c n of None \<Rightarrow> Inl NotFoundError | Some t \<Rightarrow> Inr t)"

text \<open>Modelled from the spec: \<open>hasResource(name)\<close> of section 6, for buffers.\<close>

definition hasSharedBuffer :: "CapsaicinInternal \<Rightarrow> string \<Rightarrow> bool" where
  "hasSharedBuffer c n = (ctx_sharedBuffers c n \<noteq> None)"

text \<open>Modelled from the spec: \<open>getResource(name)\<close> of section 6, for buffers.\<close>

definition getSharedBuffer :: "CapsaicinInternal \<Rightarrow> string \<Rightarrow> error + GfxBuffer" where
  "getSharedBuffer c n =
     (case ctx_sharedBuffers c n of None \<Rightarrow> Inl NotFoundError | Some b \<Rightarrow> Inr b)"

text \<open>
  Modelled from the spec: \<open>checkDebugViewSharedTexture(view)\<close> tells whether a debug
  view shows a shared texture. Section 6 has such a view as the pure passthrough of an
  existing resolved resource, so the test holds for the names of this frame's resolved
  textures.
\<close>

definition checkDebugViewSharedTexture :: "CapsaicinInternal \<Rightarrow> string \<Rightarrow> bool" where
  "checkDebugViewSharedTexture c view = (ctx_sharedTextures c view \<noteq> None)"

section \<open>random\_number\_generator.cpp\<close>

text \<open>
  \<open>RandomNumberGenerator::RenderOptions\<close> is declared in the header, which is not
  among the sources; the kinds are those the sources use the members at
  (\<open>getOption<bool>\<close> and \<open>getOption<uint32_t>\<close> are compared with them).
\<close>

record RNG_RenderOptions =
  random_deterministic :: bool
  random_seed :: "32 word"

definition RandomNumberGenerator_convertOptions ::
  "RenderOptionList \<Rightarrow> error + RNG_RenderOptions" where
  "RandomNumberGenerator_convertOptions opts =
     bindE (RENDER_OPTION_GET_bool ''random_deterministic'' opts) (\<lambda>det.
     bindE (RENDER_OPTION_GET_uint32 ''random_seed'' opts) (\<lambda>seed.
     Inr \<lparr> random_deterministic = det, random_seed = seed \<rparr>))"

text \<open>
  The standard library's generators: \<open>std::mt19937\<close> by its seeding constructor and
  its \<open>operator()\<close> on a generator state \<open>'g\<close>, and the number \<open>std::random_device\<close>
  hands out.
\<close>

record 'g std_random =
  mt19937_seed :: "32 word \<Rightarrow> 'g"
  mt19937_next :: "'g \<Rightarrow> 32 word \<times> 'g"
  random_device :: "32 word"

text \<open>A generator that counts up from its seed, to run the functions on.\<close>

definition counting_random :: "32 word std_random" where
  "counting_random =
     \<lparr> mt19937_seed = (\<lambda>seed. seed), mt19937_next = (\<lambda>g. (g, g + 1)), random_device = 7 \<rparr>"

record RandomNumberGenerator =
  rng_options :: RNG_RenderOptions
  seedBuffer :: "GfxBuffer option"

text \<open>\<open>glm::max\<close> on \<open>uint2\<close> is component-wise.\<close>

definition max_uint2 :: "uint2 \<Rightarrow> uint2 \<Rightarrow> uint2" where
  "max_uint2 a b = uint2 (max (dim_x a) (dim_x b)) (max (dim_y a) (dim_y b))"

definition seedDimensions_of :: "CapsaicinInternal \<Rightarrow> uint2" where
  "seedDimensions_of c = max_uint2 (ctx_renderDimensions c) (uint2 1920 1080)"

text \<open>\<open>static_cast<uint64_t>(seedDimensions.x) * seedDimensions.y\<close>\<close>

definition seedBufferSize_of :: "uint2 \<Rightarrow> 64 word" where
  "seedBufferSize_of seedDimensions = ucast (dim_x seedDimensions) * ucast (dim_y seedDimensions)"

text \<open>
  \<open>for (uint32_t i = 0; i < seedBufferSize; ++i) seedBufferData.push_back(gen());\<close>
  The counter has 32 bits and wraps; the comparison is made in 64 bits. A run of the
  loop that never ends has the value \<open>None\<close>.
\<close>

partial_function (option) fill_seedBufferData ::
  "('g \<Rightarrow> 32 word \<times> 'g) \<Rightarrow> 64 word \<Rightarrow> 32 word \<Rightarrow> 'g \<Rightarrow> 32 word list
     \<Rightarrow> 32 word list option" where
  "fill_seedBufferData gen_next seedBufferSize i gen seedBufferData =
     (if ucast i < seedBufferSize
      then fill_seedBufferData gen_next seedBufferSize (i + 1) (snd (gen_next gen))
             (seedBufferData @ [fst (gen_next gen)])
      else Some seedBufferData)"

text \<open>
  The condition of the \<open>if\<close> in \<open>RandomNumberGenerator::init\<close>, with the
  short-circuit evaluation of \<open>||\<close>: true when the component fills a buffer of its own.
\<close>

definition ownSeedBufferNeeded :: "CapsaicinInternal \<Rightarrow> RNG_RenderOptions \<Rightarrow> error + bool" where
  "ownSeedBufferNeeded c opts =
     (if \<not> hasComponent c ''StratifiedSampler'' then Inr True
      else bindE (getOption_uint32 c ''stratified_sampler_seed'') (\<lambda>seed.
        if seed \<noteq> random_seed opts then Inr True
        else bindE (getOption_bool c ''stratified_sampler_deterministic'') (\<lambda>det.
          Inr (det \<noteq> random_deterministic opts))))"

text \<open>
  \<open>gfxCreateBuffer<uint32_t>(gfx_, static_cast<uint32_t>(seedBufferData.size()),
  seedBufferData.data())\<close>, taken to succeed.
\<close>

definition gfxCreateBuffer_uint32 :: "32 word list \<Rightarrow> string \<Rightarrow> GfxBuffer" where
  "gfxCreateBuffer_uint32 seedBufferData n =
     \<lparr> gfxbuf_count = of_nat (length seedBufferData), gfxbuf_stride = 4,
       gfxbuf_data = seedBufferData, gfxbuf_name = n \<rparr>"

text \<open>
  \<open>RandomNumberGenerator::init\<close>: \<open>None\<close> when it does not return, otherwise its
  failure or its return value with the component's new state.
\<close>

definition RandomNumberGenerator_init ::
  "'g std_random \<Rightarrow> CapsaicinInternal \<Rightarrow> RandomNumberGenerator
     \<Rightarrow> (error + bool \<times> RandomNumberGenerator) option" where
  "RandomNumberGenerator_init lib c s =
     (case RandomNumberGenerator_convertOptions (ctx_options c) of
        Inl e \<Rightarrow> Some (Inl e)
      | Inr opts \<Rightarrow>
          (case ownSeedBufferNeeded c opts of
             Inl e \<Rightarrow> Some (Inl e)
           | Inr True \<Rightarrow>
               (let seedDimensions = seedDimensions_of c;
                    seedBufferSize = seedBufferSize_of seedDimensions
                in case (if random_deterministic opts
                         then fill_seedBufferData (mt19937_next lib) seedBufferSize 0
                                (mt19937_seed lib (random_seed opts)) []
                         else fill_seedBufferData (mt19937_next lib) seedBufferSize 0
                                (mt19937_seed lib (random_device lib)) []) of
                     None \<Rightarrow> None
                   | Some seedBufferData \<Rightarrow>
                       Some (Inr (True,
                         s\<lparr> rng_options := opts,
                            seedBuffer := Some (gfxCreateBuffer_uint32 seedBufferData
                              ''RandomNumberGenerator_SeedBuffer'') \<rparr>)))
           | Inr False \<Rightarrow> Some (Inr (True, s\<lparr> rng_options := opts, seedBuffer := None \<rparr>))))"

section \<open>Resource declarations of the techniques\<close>

text \<open>\<open>FSR::getSharedBuffers\<close>, \<open>FSR::getSharedTextures\<close>\<close>

definition FSR_getSharedBuffers :: "SharedBuffer list" where
  "FSR_getSharedBuffers =
     [SharedBuffer_default ''Exposure''
        \<lparr> buf_access := BitMask_of (Access_val Write),
          buf_flags := BitMask_of (BufferFlags_val BF_OptionalDiscard) \<rparr>]"

definition FSR_getSharedTextures :: "SharedTexture list" where
  "FSR_getSharedTextures =
     [SharedTexture_default ''Color'',
      SharedTexture_default ''ColorScaled''
        \<lparr> tex_access := BitMask_of (Access_val Write),
          tex_flags := BitMask_of (TextureFlags_val TF_Optional) \<rparr>,
      SharedTexture_default ''VisibilityDepth'',
      SharedTexture_default ''Velocity'']"

text \<open>\<open>ToneMapping::getSharedBuffers\<close>, \<open>ToneMapping::getSharedTextures\<close>\<close>

definition ToneMapping_getSharedBuffers :: "SharedBuffer list" where
  "ToneMapping_getSharedBuffers =
     [SharedBuffer_default ''Exposure'' \<lparr> buf_access := BitMask_of (Access_val Read) \<rparr>]"

definition ToneMapping_getSharedTextures :: "SharedTexture list" where
  "ToneMapping_getSharedTextures =
     [SharedTexture_default ''Color'' \<lparr> tex_access := BitMask_of (Access_val ReadWrite) \<rparr>,
      SharedTexture_default ''Debug'' \<lparr> tex_access := BitMask_of (Access_val ReadWrite) \<rparr>,
      SharedTexture_default ''ColorScaled''
        \<lparr> tex_access := BitMask_of (Access_val ReadWrite),
          tex_flags := BitMask_of (TextureFlags_val TF_OptionalDiscard) \<rparr>]"

section \<open>The resource graph resolver\<close>

text \<open>
  Modelled from the spec: the resolver that merges the declarations of all contributors
  into one plan per frame, and the orchestrator's collection of the declarations, are
  not among the sources (which hold the declarations themselves). The definitions of
  this section follow sections 3, 4.2 and 4.3 of the specification, step by step and in
  the order of its steps 1 to 3. Steps 4 to 6 manage the allocations behind the plan
  (keeping, recreating, clearing and backing up GPU memory across frames); they decide
  no name's presence in the plan of the current frame and are not modelled.
\<close>

text \<open>
  Modelled from the spec: a Named Resource Request (section 3). The flags are laid out
  as in \<open>SharedTexture::Flags\<close>, with which \<open>SharedBuffer::Flags\<close> agrees on every
  enumerator both have.
\<close>

record Request =
  req_name :: string
  req_access :: "8 word BitMask"
  req_flags :: "8 word BitMask"
  req_format :: DXGI_FORMAT
  req_dimensions :: uint2
  req_size :: "64 word"
  req_require :: string

text \<open>Modelled from the spec: the request a texture declaration of the sources stands for.\<close>

definition request_of_texture :: "SharedTexture \<Rightarrow> Request" where
  "request_of_texture t =
     \<lparr> req_name = tex_name t, req_access = tex_access t, req_flags = tex_flags t,
       req_format = tex_format t, req_dimensions = tex_dimensions t, req_size = 0,
       req_require = tex_require t \<rparr>"

text \<open>Modelled from the spec: the request a buffer declaration of the sources stands for.\<close>

definition request_of_buffer :: "SharedBuffer \<Rightarrow> Request" where
  "request_of_buffer b =
     \<lparr> req_name = buf_name b, req_access = buf_access b, req_flags = buf_flags b,
       req_format = DXGI_FORMAT_UNKNOWN, req_dimensions = uint2 0 0, req_size = buf_size b,
       req_require = buf_require b \<rparr>"

text \<open>Modelled from the spec: a Resolved Resource (section 3), without its GPU handle.\<close>

record ResolvedResource =
  res_name :: string
  res_access :: "8 word BitMask"
  res_flags :: "8 word BitMask"
  res_format :: DXGI_FORMAT
  res_dimensions :: uint2
  res_cleared :: bool

text \<open>Modelled from the spec: step 1, the distinct names in the order of first request.\<close>

definition requested_names :: "Request list \<Rightarrow> string list" where
  "requested_names reqs = rev (remdups (rev (map req_name reqs)))"

text \<open>Modelled from the spec: step 1, the requests of one name, in the contributors' order.\<close>

definition group_of :: "Request list \<Rightarrow> string \<Rightarrow> Request list" where
  "group_of reqs n = filter (\<lambda>r. req_name r = n) reqs"

text \<open>
  Modelled from the spec: step 2. The union of the access bits, the logical OR of the
  flags, the first known format and the first non-zero dimensions (the window's when
  all are zero); \<open>ConflictError\<close> when the merged flags hold both \<open>Clear\<close> and
  \<open>Accumulate\<close>.
\<close>

fun union_masks :: "8 word BitMask list \<Rightarrow> 8 word BitMask" where
  "union_masks [] = BitMask_default"
| "union_masks (m # ms) = bm_or m (union_masks ms)"

text \<open>Modelled from the spec: step 2, the first format that is not unknown.\<close>

fun first_format :: "Request list \<Rightarrow> DXGI_FORMAT" where
  "first_format [] = DXGI_FORMAT_UNKNOWN"
| "first_format (r # rs) =
     (if req_format r \<noteq> DXGI_FORMAT_UNKNOWN then req_format r else first_format rs)"

text \<open>Modelled from the spec: step 2, the first dimensions that are not zero, or the window's.\<close>

fun first_dimensions :: "uint2 \<Rightarrow> Request list \<Rightarrow> uint2" where
  "first_dimensions window [] = window"
| "first_dimensions window (r # rs) =
     (if req_dimensions r \<noteq> uint2 0 0 then req_dimensions r else first_dimensions window rs)"

text \<open>Modelled from the spec: step 2 on one group, with the check of \<open>Clear\<close> against \<open>Accumulate\<close>.\<close>

definition merge_group :: "uint2 \<Rightarrow> string \<Rightarrow> Request list \<Rightarrow> error + ResolvedResource" where
  "merge_group window n g =
     (let flags = union_masks (map req_flags g)
      in if bm_and_T flags (TextureFlags_val TF_Clear)
            \<and> bm_and_T flags (TextureFlags_val TF_Accumulate)
         then Inl ConflictError
         else Inr \<lparr> res_name = n, res_access = union_masks (map req_access g),
                    res_flags = flags, res_format = first_format g,
                    res_dimensions = first_dimensions window g,
                    res_cleared = bm_and_T flags (TextureFlags_val TF_Clear) \<rparr>)"

text \<open>Modelled from the spec: step 2 on every group; each merged resource keeps its group for step 3.\<close>

fun merge_groups ::
  "uint2 \<Rightarrow> Request list \<Rightarrow> string list \<Rightarrow> error + (ResolvedResource \<times> Request list) list" where
  "merge_groups window reqs [] = Inr []"
| "merge_groups window reqs (n # ns) =
     bindE (merge_group window n (group_of reqs n)) (\<lambda>res.
     bindE (merge_groups window reqs ns) (\<lambda>rest.
     Inr ((res, group_of reqs n) # rest)))"

text \<open>
  Modelled from the spec: step 3. \<open>sat\<close> evaluates a \<open>require\<close> predicate for this
  frame; the empty string asks for nothing. An \<open>Optional\<close> request whose predicate
  fails is dropped, a group that loses all its members takes its resource out of the
  plan, and a request that is not \<open>Optional\<close> and whose predicate fails is an
  \<open>UnsatisfiableRequireError\<close>.
\<close>

definition require_ok :: "(string \<Rightarrow> bool) \<Rightarrow> Request \<Rightarrow> bool" where
  "require_ok sat r = (req_require r = [] \<or> sat (req_require r))"

text \<open>Modelled from the spec: the request is tagged \<open>Optional\<close> (step 3).\<close>

definition is_optional :: "Request \<Rightarrow> bool" where
  "is_optional r = bm_and_T (req_flags r) (TextureFlags_val TF_Optional)"

text \<open>Modelled from the spec: step 3 on every merged group.\<close>

fun applicability ::
  "(string \<Rightarrow> bool) \<Rightarrow> (ResolvedResource \<times> Request list) list
     \<Rightarrow> error + ResolvedResource list" where
  "applicability sat [] = Inr []"
| "applicability sat ((res, g) # rest) =
     (if list_ex (\<lambda>r. \<not> is_optional r \<and> \<not> require_ok sat r) g
      then Inl UnsatisfiableRequireError
      else bindE (applicability sat rest) (\<lambda>plan.
        if filter (require_ok sat) g = [] then Inr plan else Inr (res # plan)))"

text \<open>Modelled from the spec: the resolver, steps 1 to 3 in their order, a plan or a failure.\<close>

definition resolve ::
  "uint2 \<Rightarrow> (string \<Rightarrow> bool) \<Rightarrow> Request list \<Rightarrow> error + ResolvedResource list" where
  "resolve window sat reqs =
     bindE (merge_groups window reqs (requested_names reqs)) (applicability sat)"

text \<open>Modelled from the spec: \<open>hasResource(name)\<close> of section 6 on a plan.\<close>

definition hasResource :: "ResolvedResource list \<Rightarrow> string \<Rightarrow> bool" where
  "hasResource plan n = (n \<in> set (map res_name plan))"

text \<open>
  Modelled from the spec: a contributor with its lifecycle state (section 4.3) and its
  declarations; the orchestrator collects the requests of the \<open>Running\<close> and the
  \<open>Initialized\<close> contributors, in registration order. A contributor that is
  disabled is in neither state.
\<close>

datatype Lifecycle = Uninitialized | Initialized | Running | Terminated

text \<open>Modelled from the spec: a contributor (section 3), by its name, state and declarations.\<close>

record Contributor =
  con_name :: string
  con_state :: Lifecycle
  con_buffers :: "SharedBuffer list"
  con_textures :: "SharedTexture list"

text \<open>Modelled from the spec: the contributors whose requests are collected (section 4.3, step 2).\<close>

definition contributes :: "Contributor \<Rightarrow> bool" where
  "contributes c = (con_state c = Initialized \<or> con_state c = Running)"

text \<open>Modelled from the spec: the buffer requests of a frame (section 4.3, step 2).\<close>

definition collect_buffer_requests :: "Contributor list \<Rightarrow> Request list" where
  "collect_buffer_requests cs =
     concat (map (\<lambda>c. map request_of_buffer (con_buffers c)) (filter contributes cs))"

text \<open>Modelled from the spec: the texture requests of a frame (section 4.3, step 2).\<close>

definition collect_texture_requests :: "Contributor list \<Rightarrow> Request list" where
  "collect_texture_requests cs =
     concat (map (\<lambda>c. map request_of_texture (con_textures c)) (filter contributes cs))"

text \<open>The two techniques of the sources as contributors, with the declarations of their code.\<close>

definition FSR_contributor :: "Lifecycle \<Rightarrow> Contributor" where
  "FSR_contributor st =
     \<lparr> con_name = ''FSR'', con_state = st, con_buffers = FSR_getSharedBuffers,
       con_textures = FSR_getSharedTextures \<rparr>"

definition ToneMapping_contributor :: "Lifecycle \<Rightarrow> Contributor" where
  "ToneMapping_contributor st =
     \<lparr> con_name = ''Tone mapping'', con_state = st,
       con_buffers = ToneMapping_getSharedBuffers,
       con_textures = ToneMapping_getSharedTextures \<rparr>"

section \<open>Executions of the render step\<close>

text \<open>
  What a technique does to the device and to the framework during one call, in the
  order of the calls. Program parameters that are set and the numbers handed to a
  dispatch are not recorded.
\<close>

datatype event =
    GfxFinish
  | Terminate
  | DestroyContext
  | DestroyTexture
  | DestroyKernel
  | DestroyProgram
  | CreateTexture string
  | CreateProgram string
  | CreateKernel "string list"
  | CreateContext "64 word option"
  | HasSharedTexture string bool
  | GetSharedTexture string bool
  | HasSharedBuffer string bool
  | GetSharedBuffer string bool
  | SetCameraJitterPhase
  | SetDebugView string
  | CopyBufferToTexture
  | Dispatch

text \<open>
  A call either returns a value with the new state of the technique, or fails; both
  carry the events up to that point.
\<close>

datatype ('s, 'a) outcome = Returned 'a 's "event list" | Failed error "event list"

fun trace_of :: "('s, 'a) outcome \<Rightarrow> event list" where
  "trace_of (Returned a s t) = t"
| "trace_of (Failed e t) = t"

fun emit :: "event list \<Rightarrow> ('s, 'a) outcome \<Rightarrow> ('s, 'a) outcome" where
  "emit t (Returned a s t') = Returned a s (t @ t')"
| "emit t (Failed e t') = Failed e (t @ t')"

definition andThen ::
  "('s, 'a) outcome \<Rightarrow> ('a \<Rightarrow> 's \<Rightarrow> ('s, 'b) outcome) \<Rightarrow> ('s, 'b) outcome" where
  "andThen m f = (case m of Failed e t \<Rightarrow> Failed e t | Returned a s t \<Rightarrow> emit t (f a s))"

text \<open>\<open>capsaicin.getSharedTexture(name)\<close> and what is done with the texture.\<close>

definition lookupTexture ::
  "CapsaicinInternal \<Rightarrow> string \<Rightarrow> (GfxTexture \<Rightarrow> ('s, 'a) outcome) \<Rightarrow> ('s, 'a) outcome" where
  "lookupTexture c n k =
     (case getSharedTexture c n of
        Inl e \<Rightarrow> Failed e [GetSharedTexture n False]
      | Inr t \<Rightarrow> emit [GetSharedTexture n True] (k t))"

definition lookupBuffer ::
  "CapsaicinInternal \<Rightarrow> string \<Rightarrow> (GfxBuffer \<Rightarrow> ('s, 'a) outcome) \<Rightarrow> ('s, 'a) outcome" where
  "lookupBuffer c n k =
     (case getSharedBuffer c n of
        Inl e \<Rightarrow> Failed e [GetSharedBuffer n False]
      | Inr b \<Rightarrow> emit [GetSharedBuffer n True] (k b))"

text \<open>
  The device and the FidelityFX library, as far as the techniques ask them: the back
  buffer, the display, whether a kernel with the given defines compiles, the upscaler
  versions on offer (name and id), whether a context is created (for the auto-exposure
  flag and the version override given), and the name of the provider loaded.
\<close>

record Device =
  gfx_backBufferColorSpace :: "32 word"
  gfx_backBufferFormat :: DXGI_FORMAT
  gfx_max_luminance :: float32
  gfx_max_luminance_full_frame :: float32
  gfx_reference_sdr_white_level :: float32
  gfx_createComputeKernel :: "string list \<Rightarrow> bool"
  ffx_versions :: "(string \<times> 64 word) list"
  ffx_createContext :: "bool \<Rightarrow> 64 word option \<Rightarrow> bool"
  ffx_providerVersionName :: "string option"

text \<open>Enumerators of \<open>dxgiformat.h\<close> and \<open>dxgicommon.h\<close> the sources name.\<close>

definition DXGI_FORMAT_R32G32B32A32_FLOAT :: DXGI_FORMAT where
  "DXGI_FORMAT_R32G32B32A32_FLOAT = 2"

definition DXGI_FORMAT_R32G32B32_FLOAT :: DXGI_FORMAT where
  "DXGI_FORMAT_R32G32B32_FLOAT = 6"

definition DXGI_FORMAT_R16G16B16A16_FLOAT :: DXGI_FORMAT where
  "DXGI_FORMAT_R16G16B16A16_FLOAT = 10"

definition DXGI_FORMAT_R10G10B10A2_UNORM :: DXGI_FORMAT where
  "DXGI_FORMAT_R10G10B10A2_UNORM = 24"

definition DXGI_FORMAT_R11G11B10_FLOAT :: DXGI_FORMAT where
  "DXGI_FORMAT_R11G11B10_FLOAT = 26"

definition DXGI_FORMAT_R32_FLOAT :: DXGI_FORMAT where
  "DXGI_FORMAT_R32_FLOAT = 41"

definition DXGI_COLOR_SPACE_RGB_FULL_G10_NONE_P709 :: "32 word" where
  "DXGI_COLOR_SPACE_RGB_FULL_G10_NONE_P709 = 1"

definition DXGI_COLOR_SPACE_RGB_FULL_G2084_NONE_P2020 :: "32 word" where
  "DXGI_COLOR_SPACE_RGB_FULL_G2084_NONE_P2020 = 12"

section \<open>fsr.cpp\<close>

datatype FfxContext = FfxContext "64 word option"

text \<open>
  The members of \<open>FSR\<close>: \<open>options_\<close>, \<open>upscale_context_\<close>, \<open>version_\<close>,
  \<open>exposure_\<close> and \<open>available_versions_\<close>.
\<close>

record FSR =
  fsr_options :: FSR_RenderOptions
  fsr_upscale_context :: "FfxContext option"
  fsr_version_name :: string
  fsr_exposure :: "GfxTexture option"
  fsr_available_versions :: bool4

text \<open>\<open>FSR::terminate\<close>\<close>

definition FSR_terminate :: "FSR \<Rightarrow> FSR \<times> event list" where
  "FSR_terminate s =
     (s\<lparr> fsr_upscale_context := None, fsr_exposure := None \<rparr>,
      Terminate # (if fsr_upscale_context s \<noteq> None then [DestroyContext] else [])
        @ [DestroyTexture])"

text \<open>\<open>name[0] == ch\<close> on a C string: the first character, the terminator when it is empty.\<close>

definition first_char_is :: "char \<Rightarrow> string \<Rightarrow> bool" where
  "first_char_is ch name = (case name of [] \<Rightarrow> ch = CHR 0x00 | x # _ \<Rightarrow> x = ch)"

definition versionChars :: "char list" where
  "versionChars = [CHR ''2'', CHR ''3'', CHR ''4'']"

text \<open>\<open>operator[]\<close> of a \<open>std::vector\<close> or \<open>std::array\<close>, undefined past the end.\<close>

definition vector_at :: "'a list \<Rightarrow> nat \<Rightarrow> error + 'a" where
  "vector_at xs i = (if i < length xs then Inr (xs ! i) else Inl IndexOutOfBounds)"

text \<open>\<open>std::distance(v.begin(), std::ranges::find_if(v, p))\<close>: the size when nothing is found.\<close>

fun find_pos :: "('a \<Rightarrow> bool) \<Rightarrow> 'a list \<Rightarrow> nat" where
  "find_pos p [] = 0"
| "find_pos p (x # xs) = (if p x then 0 else Suc (find_pos p xs))"

text \<open>The part of \<open>FSR::init\<close> that marks the versions on offer (lines 287 to 310).\<close>

fun FSR_detect_versions :: "string list \<Rightarrow> bool4 \<Rightarrow> bool4" where
  "FSR_detect_versions versionNames (bool4 a0 a1 a2 a3) =
     (let b1 = (if list_ex (first_char_is (versionChars ! 0)) versionNames then True else a1);
          b2 = (if list_ex (first_char_is (versionChars ! 1)) versionNames then True else a2);
          b3 = (if list_ex (first_char_is (versionChars ! 2)) versionNames then True else a3);
          b0 = (if b1 \<or> b2 \<or> b3 then True else a0)
      in bool4 b0 b1 b2 b3)"

text \<open>
  The part of \<open>FSR::init\<close> that handles a requested version (lines 312 to 336): the
  value is false where \<open>init\<close> returns false. The subtraction in
  \<open>versionChars[options_.fsr_version - 1]\<close> is reached with a version that is not 0.
\<close>

definition FSR_version_override ::
  "Device \<Rightarrow> bool \<Rightarrow> string list \<Rightarrow> 64 word list \<Rightarrow> FSR \<Rightarrow> (FSR, bool) outcome" where
  "FSR_version_override dev autoExposure versionNames versionIds s =
     (if fsr_version (fsr_options s) \<noteq> FSRVersion_val Auto
      then (case bool4_at (fsr_available_versions s) (unat (fsr_version (fsr_options s))) of
              Inl e \<Rightarrow> Failed e []
            | Inr available \<Rightarrow>
                if \<not> available
                then Returned True
                       (s\<lparr> fsr_options := (fsr_options s)\<lparr> fsr_version := FSRVersion_val Auto \<rparr> \<rparr>) []
                else (case vector_at versionChars (unat (fsr_version (fsr_options s)) - 1) of
                        Inl e \<Rightarrow> Failed e []
                      | Inr ch \<Rightarrow>
                          (case vector_at versionIds (find_pos (first_char_is ch) versionNames) of
                             Inl e \<Rightarrow> Failed e []
                           | Inr versionId \<Rightarrow>
                               if ffx_createContext dev autoExposure (Some versionId)
                               then Returned True
                                      (s\<lparr> fsr_upscale_context := Some (FfxContext (Some versionId)) \<rparr>)
                                      [CreateContext (Some versionId)]
                               else Returned False s [CreateContext (Some versionId)])))
      else Returned True s [])"

text \<open>The rest of \<open>FSR::init\<close> after the versions are marked (lines 312 to 361).\<close>

definition FSR_init_context ::
  "Device \<Rightarrow> bool \<Rightarrow> string list \<Rightarrow> 64 word list \<Rightarrow> FSR \<Rightarrow> (FSR, bool) outcome" where
  "FSR_init_context dev autoExposure versionNames versionIds s =
     andThen (FSR_version_override dev autoExposure versionNames versionIds s) (\<lambda>ok s1.
       if \<not> ok then Returned False s1 []
       else andThen
         (if fsr_version (fsr_options s1) = FSRVersion_val Auto
          then (if ffx_createContext dev autoExposure None
                then Returned True (s1\<lparr> fsr_upscale_context := Some (FfxContext None) \<rparr>)
                       [CreateContext None]
                else Returned False s1 [CreateContext None])
          else Returned True s1 [])
         (\<lambda>ok s2.
            if \<not> ok then Returned False s2 []
            else (case ffx_providerVersionName dev of
                    Some versionName \<Rightarrow> Returned True (s2\<lparr> fsr_version_name := versionName \<rparr>) []
                  | None \<Rightarrow> Returned False s2 [DestroyContext])))"

text \<open>\<open>FSR::init\<close>\<close>

definition FSR_init :: "CapsaicinInternal \<Rightarrow> Device \<Rightarrow> FSR \<Rightarrow> (FSR, bool) outcome" where
  "FSR_init c dev s =
     (case FSR_convertOptions (ctx_options c) of
        Inl e \<Rightarrow> Failed e []
      | Inr opts \<Rightarrow>
          (let s0 = s\<lparr> fsr_options := opts \<rparr>
           in if \<not> taa_enable opts then Returned True s0 []
              else
               (let hasExposure = hasSharedBuffer c ''Exposure'';
                    autoExposure = (\<not> hasExposure);
                    s1 = (if hasExposure
                          then s0\<lparr> fsr_exposure := Some \<lparr> gfxtex_name = ''FSR_Exposure'',
                                 gfxtex_format = DXGI_FORMAT_R32_FLOAT \<rparr> \<rparr>
                          else s0);
                    t1 = HasSharedBuffer ''Exposure'' hasExposure
                           # (if hasExposure then [CreateTexture ''FSR_Exposure''] else []);
                    versionNames = map fst (ffx_versions dev);
                    versionIds = map snd (ffx_versions dev)
                in if versionNames = []
                   then Returned False
                          (s1\<lparr> fsr_available_versions := bool4 False False False False \<rparr>) t1
                   else emit t1
                          (FSR_init_context dev autoExposure versionNames versionIds
                             (s1\<lparr> fsr_available_versions :=
                                   FSR_detect_versions versionNames (fsr_available_versions s1) \<rparr>)))))"

text \<open>
  \<open>FSR::render\<close> from the lookup of the output texture to the dispatch (lines 426 to
  481). The conversion of the textures to FidelityFX resources and the numbers of the
  dispatch are left out.
\<close>

definition FSR_render_dispatch :: "CapsaicinInternal \<Rightarrow> FSR \<Rightarrow> (FSR, unit) outcome" where
  "FSR_render_dispatch c s =
     (let hasColorScaled = hasSharedTexture c ''ColorScaled'';
          usesScaling = (hasColorScaled \<and> ctx_renderScaleBelowOne c)
      in emit [HasSharedTexture ''ColorScaled'' hasColorScaled]
           (lookupTexture c ''Color'' (\<lambda>colourAOV.
            (if \<not> usesScaling then (\<lambda>k. k colourAOV) else lookupTexture c ''ColorScaled'')
              (\<lambda>outputAOV.
            lookupTexture c ''VisibilityDepth'' (\<lambda>depthAOV.
            lookupTexture c ''Velocity'' (\<lambda>velocityAOV.
            Returned () s [Dispatch]))))))"

text \<open>\<open>FSR::render\<close> from the exposure update on (lines 411 to 481).\<close>

definition FSR_render_upscale :: "CapsaicinInternal \<Rightarrow> FSR \<Rightarrow> (FSR, unit) outcome" where
  "FSR_render_upscale c s =
     (let hasExposure = (fsr_exposure s \<noteq> None)
      in if hasExposure
         then lookupBuffer c ''Exposure'' (\<lambda>exposure.
                emit [CopyBufferToTexture] (FSR_render_dispatch c s))
         else FSR_render_dispatch c s)"

text \<open>
  \<open>FSR::render\<close>. \<open>cameraReset\<close> only enters the numbers of the dispatch and is not
  carried along.
\<close>

definition FSR_render :: "CapsaicinInternal \<Rightarrow> Device \<Rightarrow> FSR \<Rightarrow> (FSR, unit) outcome" where
  "FSR_render c dev s =
     (case FSR_convertOptions (ctx_options c) of
        Inl e \<Rightarrow> Failed e []
      | Inr newOptions \<Rightarrow>
          if \<not> taa_enable newOptions
          then (if taa_enable (fsr_options s)
                then (case FSR_terminate s of
                        (s', t) \<Rightarrow> Returned () (s'\<lparr> fsr_options := newOptions \<rparr>) (GfxFinish # t))
                else Returned () (s\<lparr> fsr_options := newOptions \<rparr>) [])
          else
           (let reInit = (\<not> taa_enable (fsr_options s)
                           \<or> fsr_version newOptions \<noteq> fsr_version (fsr_options s));
                s1 = s\<lparr> fsr_options := newOptions \<rparr>
            in if reInit
               then (case (if fsr_upscale_context s1 \<noteq> None
                           then (case FSR_terminate s1 of (s', t) \<Rightarrow> (s', GfxFinish # t))
                           else (s1, [])) of
                       (s2, t2) \<Rightarrow>
                         emit t2 (andThen (FSR_init c dev s2) (\<lambda>ok s3.
                           if \<not> ok then Returned () s3 [] else FSR_render_upscale c s3)))
               else (if ctx_renderDimensionsUpdated c \<or> ctx_windowDimensionsUpdated c
                        \<or> ctx_frameIndex c = 0
                     then emit [SetCameraJitterPhase] (FSR_render_upscale c s1)
                     else FSR_render_upscale c s1)))"

section \<open>tone\_mapping.cpp\<close>

record ToneMapping =
  tm_options :: ToneMapping_RenderOptions
  colourSpace :: "32 word"
  usingDither :: bool
  usingHDR :: bool
  maxLuminance :: float32
  exposureScale :: float32
  toneMappingProgram :: "string option"
  toneMapKernel :: "string list option"

text \<open>\<open>ToneMapping::terminate\<close>\<close>

definition ToneMapping_terminate :: "ToneMapping \<Rightarrow> ToneMapping \<times> event list" where
  "ToneMapping_terminate s =
     (s\<lparr> toneMapKernel := None, toneMappingProgram := None \<rparr>,
      [Terminate, DestroyKernel, DestroyProgram])"

text \<open>The \<open>switch\<close> over \<open>RenderOptions::TonemapOperator\<close> in \<open>initToneMapKernel\<close>.\<close>

definition tonemap_define :: "8 word \<Rightarrow> string" where
  "tonemap_define op =
     (if op = 1 then ''TONEMAP_REINHARD''
      else if op = 2 then ''TONEMAP_REINHARDL''
      else if op = 3 then ''TONEMAP_ACESFAST''
      else if op = 4 then ''TONEMAP_ACESFITTED''
      else if op = 5 then ''TONEMAP_ACES''
      else if op = 6 then ''TONEMAP_PBRNEUTRAL''
      else if op = 7 then ''TONEMAP_UNCHARTED2''
      else if op = 8 then ''TONEMAP_AGXFITTED''
      else if op = 9 then ''TONEMAP_AGX''
      else ''TONEMAP_NONE'')"

text \<open>
  \<open>ToneMapping::initToneMapKernel\<close>: its return value, the new state and the events.
  The kernel is kept as the list of defines it was compiled with.
\<close>

definition ToneMapping_initToneMapKernel ::
  "float_ops \<Rightarrow> Device \<Rightarrow> ToneMapping \<Rightarrow> bool \<times> ToneMapping \<times> event list" where
  "ToneMapping_initToneMapKernel fp dev s =
     (let cs = gfx_backBufferColorSpace dev;
          defines0 =
            (if cs = DXGI_COLOR_SPACE_RGB_FULL_G10_NONE_P709 then [''OUTPUT_SCRGB'']
             else if cs = DXGI_COLOR_SPACE_RGB_FULL_G2084_NONE_P2020 then [''OUTPUT_HDR10'']
             else [''OUTPUT_SRGB'']);
          displayFormat = gfx_backBufferFormat dev;
          hdr = (if displayFormat = DXGI_FORMAT_R16G16B16A16_FLOAT then True
                 else if displayFormat = DXGI_FORMAT_R10G10B10A2_UNORM
                 then cs = DXGI_COLOR_SPACE_RGB_FULL_G2084_NONE_P2020
                 else False);
          dither = (if displayFormat = DXGI_FORMAT_R16G16B16A16_FLOAT then False
                    else if displayFormat = DXGI_FORMAT_R10G10B10A2_UNORM
                    then cs \<noteq> DXGI_COLOR_SPACE_RGB_FULL_G2084_NONE_P2020
                    else True);
          defines1 =
            (if displayFormat = DXGI_FORMAT_R16G16B16A16_FLOAT then defines0
             else if displayFormat = DXGI_FORMAT_R10G10B10A2_UNORM
             then (if cs \<noteq> DXGI_COLOR_SPACE_RGB_FULL_G2084_NONE_P2020
                   then defines0 @ [''DITHER_10''] else defines0)
             else defines0 @ [''DITHER_8'']);
          defines2 = (if hdr then defines1 @ [''OUTPUT_HDR''] else defines1);
          s1 = s\<lparr> colourSpace := cs, usingDither := dither, usingHDR := hdr \<rparr>;
          s2 = (if hdr
                then s1\<lparr> maxLuminance :=
                           f_add fp (gfx_max_luminance dev)
                             (f_mul fp
                                (f_sub fp (gfx_max_luminance_full_frame dev)
                                   (gfx_max_luminance dev))
                                f_half),
                         exposureScale :=
                           f_div fp (gfx_reference_sdr_white_level dev) f_eighty \<rparr>
                else s1);
          defines3 = defines2 @ [tonemap_define (tonemap_operator (tm_options s))];
          kernel = (if gfx_createComputeKernel dev defines3 then Some defines3 else None)
      in (kernel \<noteq> None, s2\<lparr> toneMapKernel := kernel \<rparr>,
          [DestroyKernel, CreateKernel defines3]))"

text \<open>\<open>ToneMapping::init\<close>\<close>

definition ToneMapping_init ::
  "float_ops \<Rightarrow> CapsaicinInternal \<Rightarrow> Device \<Rightarrow> ToneMapping \<Rightarrow> (ToneMapping, bool) outcome" where
  "ToneMapping_init fp c dev s =
     (case ToneMapping_convertOptions (ctx_options c) of
        Inl e \<Rightarrow> Failed e []
      | Inr opts \<Rightarrow>
          (let s0 = s\<lparr> tm_options := opts \<rparr>
           in if tonemap_enable opts
              then (case ToneMapping_initToneMapKernel fp dev
                           (s0\<lparr> toneMappingProgram :=
                                 Some ''render_techniques/tone_mapping/tone_mapping'' \<rparr>) of
                      (ok, s1, t) \<Rightarrow>
                        Returned ok s1
                          (CreateProgram ''render_techniques/tone_mapping/tone_mapping'' # t))
              else Returned True s0 []))"

text \<open>
  The choice of the input and the output texture under a debug view, in
  \<open>ToneMapping::render\<close> (lines 144 to 180), and what is done with the two.
\<close>

definition ToneMapping_select_views ::
  "CapsaicinInternal \<Rightarrow> bool \<Rightarrow> GfxTexture
     \<Rightarrow> (GfxTexture \<Rightarrow> GfxTexture \<Rightarrow> (ToneMapping, unit) outcome)
     \<Rightarrow> (ToneMapping, unit) outcome" where
  "ToneMapping_select_views c usesScaling input k =
     (let debugView = ctx_currentDebugView c
      in if debugView \<noteq> [] \<and> debugView \<noteq> ''None''
         then (if debugView = ''ToneMappedOutput''
               then (if \<not> usesScaling
                     then lookupTexture c ''Debug'' (\<lambda>output. k input output)
                     else emit [SetDebugView ''None''] (k input input))
               else (if checkDebugViewSharedTexture c debugView
                     then lookupTexture c debugView (\<lambda>debugAOV.
                            if gfxtex_format debugAOV = DXGI_FORMAT_R32G32B32A32_FLOAT
                               \<or> gfxtex_format debugAOV = DXGI_FORMAT_R32G32B32_FLOAT
                               \<or> gfxtex_format debugAOV = DXGI_FORMAT_R16G16B16A16_FLOAT
                               \<or> gfxtex_format debugAOV = DXGI_FORMAT_R11G11B10_FLOAT
                            then lookupTexture c ''Debug'' (\<lambda>output. k debugAOV output)
                            else k input input)
                     else lookupTexture c ''Debug'' (\<lambda>debug. k debug debug)))
         else k input input)"

text \<open>\<open>ToneMapping::render\<close> from the test for scaling to the dispatch (lines 137 to 207).\<close>

definition ToneMapping_render_body ::
  "CapsaicinInternal \<Rightarrow> ToneMapping \<Rightarrow> (ToneMapping, unit) outcome" where
  "ToneMapping_render_body c s =
     (let hasColorScaled = hasSharedTexture c ''ColorScaled''
      in emit [HasSharedTexture ''ColorScaled'' hasColorScaled]
           (case (if hasColorScaled \<and> hasOption_bool c ''taa_enable''
                  then getOption_bool c ''taa_enable'' else Inr False) of
              Inl e \<Rightarrow> Failed e []
            | Inr usesScaling \<Rightarrow>
                lookupTexture c (if \<not> usesScaling then ''Color'' else ''ColorScaled'')
                  (\<lambda>input.
                ToneMapping_select_views c usesScaling input (\<lambda>input' output.
                lookupBuffer c ''Exposure'' (\<lambda>exposure.
                Returned () s [Dispatch])))))"

text \<open>\<open>ToneMapping::render\<close>\<close>

definition ToneMapping_render ::
  "float_ops \<Rightarrow> CapsaicinInternal \<Rightarrow> Device \<Rightarrow> ToneMapping \<Rightarrow> (ToneMapping, unit) outcome" where
  "ToneMapping_render fp c dev s =
     (case ToneMapping_convertOptions (ctx_options c) of
        Inl e \<Rightarrow> Failed e []
      | Inr newOptions \<Rightarrow>
          if \<not> tonemap_enable newOptions
          then (if tonemap_enable (tm_options s)
                then (case ToneMapping_terminate s of
                        (s', t) \<Rightarrow> Returned () (s'\<lparr> tm_options := newOptions \<rparr>) t)
                else Returned () (s\<lparr> tm_options := newOptions \<rparr>) [])
          else
           (let recompile = (tonemap_operator (tm_options s) \<noteq> tonemap_operator newOptions);
                reInit = (\<not> tonemap_enable (tm_options s) \<and> tonemap_enable newOptions);
                s1 = s\<lparr> tm_options := newOptions \<rparr>
            in if reInit
               then andThen (ToneMapping_init fp c dev s1) (\<lambda>ok s2.
                      if \<not> ok then Returned () s2 [] else ToneMapping_render_body c s2)
               else (if recompile \<or> gfx_backBufferColorSpace dev \<noteq> colourSpace s1
                     then (case ToneMapping_initToneMapKernel fp dev s1 of
                             (ok, s2, t) \<Rightarrow>
                               if \<not> ok then Returned () s2 t
                               else emit t (ToneMapping_render_body c s2))
                     else ToneMapping_render_body c s1)))"

text \<open>Concrete inputs: float operations that return 0, and a device with one upscaler.\<close>

definition zero_float_ops :: float_ops where
  "zero_float_ops =
     \<lparr> cosf = (\<lambda>a. 0), sinf = (\<lambda>a. 0), tanf = (\<lambda>a. 0), f_neg = (\<lambda>a. 0),
       f_add = (\<lambda>a b. 0), f_sub = (\<lambda>a b. 0), f_mul = (\<lambda>a b. 0), f_div = (\<lambda>a b. 0),
       f_max = (\<lambda>a b. 0), normalize = (\<lambda>v. v) \<rparr>"

definition example_device :: Device where
  "example_device =
     \<lparr> gfx_backBufferColorSpace = 0, gfx_backBufferFormat = 28, gfx_max_luminance = 0,
       gfx_max_luminance_full_frame = 0, gfx_reference_sdr_white_level = 0,
       gfx_createComputeKernel = (\<lambda>defines. True),
       ffx_versions = [(''3.1.4'', 77)],
       ffx_createContext = (\<lambda>autoExposure version. True),
       ffx_providerVersionName = Some ''3.1.4'' \<rparr>"

text \<open>Concrete inputs: option tables and states of the two techniques.\<close>

definition FSR_option_list :: "bool \<Rightarrow> 8 word \<Rightarrow> RenderOptionList" where
  "FSR_option_list taa version =
     map_of [(''taa_enable'', OBool taa), (''fsr_version'', OUInt8 version),
             (''fsr_sharpen_enable'', OBool True), (''fsr_sharpen_sharpness'', OFloat 0)]"

definition example_FSR :: FSR where
  "example_FSR =
     \<lparr> fsr_options = \<lparr> taa_enable = True, fsr_version = 0, fsr_sharpen_enable = True,
                       fsr_sharpen_sharpness = 0 \<rparr>,
       fsr_upscale_context = Some (FfxContext None), fsr_version_name = ''3.1.4'',
       fsr_exposure = None, fsr_available_versions = bool4 True False True False \<rparr>"

definition ToneMapping_option_list :: "bool \<Rightarrow> 8 word \<Rightarrow> RenderOptionList" where
  "ToneMapping_option_list enable op =
     map_of [(''tonemap_enable'', OBool enable), (''tonemap_operator'', OUInt8 op)]"

definition example_ToneMapping :: ToneMapping where
  "example_ToneMapping =
     \<lparr> tm_options = \<lparr> tonemap_enable = True, tonemap_operator = 5 \<rparr>, colourSpace = 0,
       usingDither = True, usingHDR = False, maxLuminance = f_one, exposureScale = f_one,
       toneMappingProgram = Some ''render_techniques/tone_mapping/tone_mapping'',
       toneMapKernel = Some [''OUTPUT_SRGB'', ''DITHER_8'', ''TONEMAP_ACES''] \<rparr>"

definition example_textures :: "string \<rightharpoonup> GfxTexture" where
  "example_textures =
     map_of [(''Color'', \<lparr> gfxtex_name = ''Color'', gfxtex_format = 10 \<rparr>),
             (''ColorScaled'', \<lparr> gfxtex_name = ''ColorScaled'', gfxtex_format = 10 \<rparr>),
             (''VisibilityDepth'', \<lparr> gfxtex_name = ''VisibilityDepth'', gfxtex_format = 41 \<rparr>),
             (''Velocity'', \<lparr> gfxtex_name = ''Velocity'', gfxtex_format = 34 \<rparr>)]"

section \<open>Properties of executions\<close>

text \<open>
  Every \<open>terminate()\<close> of the trace comes after a \<open>gfxFinish\<close> of the same trace, with
  no GPU command recorded between the two. The flag tells whether the device is known
  to be idle.
\<close>

fun flush_precedes_terminate :: "bool \<Rightarrow> event list \<Rightarrow> bool" where
  "flush_precedes_terminate flushed [] = True"
| "flush_precedes_terminate flushed (GfxFinish # es) = flush_precedes_terminate True es"
| "flush_precedes_terminate flushed (Terminate # es) =
     (flushed \<and> flush_precedes_terminate flushed es)"
| "flush_precedes_terminate flushed (CopyBufferToTexture # es) =
     flush_precedes_terminate False es"
| "flush_precedes_terminate flushed (Dispatch # es) = flush_precedes_terminate False es"
| "flush_precedes_terminate flushed (e # es) = flush_precedes_terminate flushed es"

text \<open>
  Every \<open>getSharedTexture(n)\<close> of the trace finds the texture, and comes after a
  \<open>hasSharedTexture(n)\<close> of the same trace that returned true. The flag tells whether
  such a test has been seen.
\<close>

fun guarded_lookup :: "string \<Rightarrow> bool \<Rightarrow> event list \<Rightarrow> bool" where
  "guarded_lookup n seen [] = True"
| "guarded_lookup n seen (HasSharedTexture m b # es) =
     guarded_lookup n (seen \<or> (m = n \<and> b)) es"
| "guarded_lookup n seen (GetSharedTexture m found # es) =
     ((if m = n then seen \<and> found else True) \<and> guarded_lookup n seen es)"
| "guarded_lookup n seen (e # es) = guarded_lookup n seen es"

text \<open>The events of initialisation: creations, and the destructions outside \<open>terminate()\<close>.\<close>

fun init_event :: "event \<Rightarrow> bool" where
  "init_event DestroyContext = True"
| "init_event DestroyKernel = True"
| "init_event (CreateTexture n) = True"
| "init_event (CreateProgram n) = True"
| "init_event (CreateKernel defines) = True"
| "init_event (CreateContext version) = True"
| "init_event (HasSharedBuffer n b) = True"
| "init_event e = False"

fun texture_event :: "event \<Rightarrow> bool" where
  "texture_event (HasSharedTexture n b) = True"
| "texture_event (GetSharedTexture n b) = True"
| "texture_event e = False"

section \<open>Properties\<close>

subsection \<open>BitMask\<close>

text \<open>
  C7. For every bit mask \<open>m\<close> and every enumerator \<open>t\<close> whose underlying value is not
  zero, the union \<open>m | t\<close> contains \<open>t\<close>: \<open>(m | t) & t\<close> is true. The default-constructed
  mask contains no enumerator: \<open>BitMask() & t\<close> is false.
\<close>

theorem BitMask_union_contains:
  fixes m :: "'a::len word BitMask" and t :: "'a word"
  shows "(t \<noteq> 0 \<longrightarrow> bm_and_T (bm_or_T m t) t) \<and> \<not> bm_and_T BitMask_default t"
proof -
  have "(bm_mask m OR t) AND t = t"
    by (simp add: bit_eq_iff bit_and_iff bit_or_iff)
  then show ?thesis
    by (simp add: bm_and_T_def bm_or_T_def BitMask_default_def)
qed

theorem BitMask_union_contains_witness:
  "TextureFlags_val TF_Clear \<noteq> 0
   \<and> bm_and_T (bm_or_T (BitMask_of (TextureFlags_val TF_Accumulate))
         (TextureFlags_val TF_Clear)) (TextureFlags_val TF_Clear)
   \<and> \<not> bm_and_T (BitMask_default :: 8 word BitMask) (TextureFlags_val TF_Clear)"
  using BitMask_union_contains
    [of "TextureFlags_val TF_Clear" "BitMask_of (TextureFlags_val TF_Accumulate)"]
  by simp

subsection \<open>Reading options\<close>

lemma RENDER_OPTION_GET_bool_cases:
  "RENDER_OPTION_GET_bool n opts =
     (case opts n of None \<Rightarrow> Inl StdOutOfRange
      | Some v \<Rightarrow> (case get_if_bool v of None \<Rightarrow> Inl NullDereference | Some b \<Rightarrow> Inr b))"
  by (simp add: RENDER_OPTION_GET_bool_def bindE_def map_at_def deref_def
      split: option.splits)

lemma RENDER_OPTION_GET_uint8_cases:
  "RENDER_OPTION_GET_uint8 n opts =
     (case opts n of None \<Rightarrow> Inl StdOutOfRange
      | Some v \<Rightarrow> (case get_if_uint8 v of None \<Rightarrow> Inl NullDereference | Some b \<Rightarrow> Inr b))"
  by (simp add: RENDER_OPTION_GET_uint8_def bindE_def map_at_def deref_def
      split: option.splits)

lemma RENDER_OPTION_GET_uint32_cases:
  "RENDER_OPTION_GET_uint32 n opts =
     (case opts n of None \<Rightarrow> Inl StdOutOfRange
      | Some v \<Rightarrow> (case get_if_uint32 v of None \<Rightarrow> Inl NullDereference | Some b \<Rightarrow> Inr b))"
  by (simp add: RENDER_OPTION_GET_uint32_def bindE_def map_at_def deref_def
      split: option.splits)

lemma RENDER_OPTION_GET_float_cases:
  "RENDER_OPTION_GET_float n opts =
     (case opts n of None \<Rightarrow> Inl StdOutOfRange
      | Some v \<Rightarrow> (case get_if_float v of None \<Rightarrow> Inl NullDereference | Some b \<Rightarrow> Inr b))"
  by (simp add: RENDER_OPTION_GET_float_def bindE_def map_at_def deref_def
      split: option.splits)

lemma get_if_bool_Some: "get_if_bool v = Some b \<longleftrightarrow> v = OBool b"
  by (cases v) auto

lemma get_if_uint8_Some: "get_if_uint8 v = Some b \<longleftrightarrow> v = OUInt8 b"
  by (cases v) auto

lemma get_if_uint32_Some: "get_if_uint32 v = Some b \<longleftrightarrow> v = OUInt32 b"
  by (cases v) auto

lemma get_if_float_Some: "get_if_float v = Some b \<longleftrightarrow> v = OFloat b"
  by (cases v) auto

text \<open>
  C3, as the code has it. \<open>ToneMapping::convertOptions\<close> returns the stored values,
  uncoerced, exactly when \<open>tonemap_enable\<close> is stored as \<open>bool\<close> and
  \<open>tonemap_operator\<close> as \<open>uint8_t\<close>. It has no \<open>TypeMismatchError\<close> and no
  \<open>NotFoundError\<close>: a missing name leaves through the \<open>std::out_of_range\<close> of
  \<open>std::map::at\<close>, and a value of another kind through the dereference of the null
  pointer \<open>std::get_if\<close> returned.
\<close>

theorem ToneMapping_convertOptions_outcomes:
  "(ToneMapping_convertOptions opts = Inr r
      \<longleftrightarrow> opts ''tonemap_enable'' = Some (OBool (tonemap_enable r))
        \<and> opts ''tonemap_operator'' = Some (OUInt8 (tonemap_operator r)))
   \<and> (ToneMapping_convertOptions opts = Inl e
      \<longrightarrow> (e = StdOutOfRange
            \<and> (opts ''tonemap_enable'' = None \<or> opts ''tonemap_operator'' = None))
          \<or> (e = NullDereference
            \<and> ((\<exists>v. opts ''tonemap_enable'' = Some v \<and> get_if_bool v = None)
               \<or> (\<exists>v. opts ''tonemap_operator'' = Some v \<and> get_if_uint8 v = None))))"
proof -
  have ok: "ToneMapping_convertOptions opts = Inr r
      \<longleftrightarrow> opts ''tonemap_enable'' = Some (OBool (tonemap_enable r))
        \<and> opts ''tonemap_operator'' = Some (OUInt8 (tonemap_operator r))"
    by (cases r)
      (auto simp: ToneMapping_convertOptions_def RENDER_OPTION_GET_bool_cases
        RENDER_OPTION_GET_uint8_cases bindE_def get_if_bool_Some get_if_uint8_Some
        split: option.splits sum.splits)
  have bad: "ToneMapping_convertOptions opts = Inl e
      \<longrightarrow> (e = StdOutOfRange
            \<and> (opts ''tonemap_enable'' = None \<or> opts ''tonemap_operator'' = None))
          \<or> (e = NullDereference
            \<and> ((\<exists>v. opts ''tonemap_enable'' = Some v \<and> get_if_bool v = None)
               \<or> (\<exists>v. opts ''tonemap_operator'' = Some v \<and> get_if_uint8 v = None)))"
    by (auto simp: ToneMapping_convertOptions_def RENDER_OPTION_GET_bool_cases
        RENDER_OPTION_GET_uint8_cases bindE_def split: option.splits sum.splits)
  from ok bad show ?thesis by blast
qed

theorem ToneMapping_convertOptions_outcomes_witness:
  "ToneMapping_convertOptions
     (map_of [(''tonemap_enable'', OBool True), (''tonemap_operator'', OUInt8 5)])
   = Inr \<lparr> tonemap_enable = True, tonemap_operator = 5 \<rparr>"
  using ToneMapping_convertOptions_outcomes
    [of "map_of [(''tonemap_enable'', OBool True), (''tonemap_operator'', OUInt8 5)]"
        "\<lparr> tonemap_enable = True, tonemap_operator = 5 \<rparr>"]
  by simp

theorem ToneMapping_convertOptions_mismatch_counterexample:
  "ToneMapping_convertOptions
     (map_of [(''tonemap_enable'', OUInt8 1), (''tonemap_operator'', OUInt8 5)])
   = Inl NullDereference
   \<and> ToneMapping_convertOptions
       (map_of [(''tonemap_enable'', OUInt8 1), (''tonemap_operator'', OUInt8 5)])
     \<noteq> Inl TypeMismatchError"
  by (simp add: ToneMapping_convertOptions_def RENDER_OPTION_GET_bool_def
      RENDER_OPTION_GET_uint8_def bindE_def map_at_def deref_def)

text \<open>
  C8. \<open>FSR::convertOptions\<close> clamps the stored \<open>fsr_version\<close> to the \<open>FSR4\<close>
  enumerator: on every option list in which \<open>fsr_version\<close> is stored as a
  \<open>uint8_t\<close>, the \<open>RenderOptions\<close> it returns have \<open>fsr_version\<close> at most 3, so
  \<open>available_versions_[options_.fsr_version]\<close> reads inside the four elements; and it
  does return whenever the three other options are stored under their own kinds.
\<close>

theorem FSR_convertOptions_version_bound:
  assumes "opts ''fsr_version'' = Some (OUInt8 v)"
  shows "(FSR_convertOptions opts = Inr r
            \<longrightarrow> fsr_version r = min v 3 \<and> fsr_version r \<le> FSRVersion_val FSR4
              \<and> unat (fsr_version r) < 4
              \<and> bool4_at av (unat (fsr_version r)) \<noteq> Inl IndexOutOfBounds)
         \<and> (opts ''taa_enable'' = Some (OBool taa)
              \<and> opts ''fsr_sharpen_enable'' = Some (OBool sh)
              \<and> opts ''fsr_sharpen_sharpness'' = Some (OFloat sharpness)
            \<longrightarrow> FSR_convertOptions opts
                  = Inr \<lparr> taa_enable = taa, fsr_version = min v 3, fsr_sharpen_enable = sh,
                         fsr_sharpen_sharpness = sharpness \<rparr>)"
proof -
  have le: "min v 3 \<le> (3 :: 8 word)"
    by simp
  then have lt: "unat (min v 3) < 4"
    by (simp add: word_le_nat_alt)
  have idx: "bool4_at av (unat (min v 3)) \<noteq> Inl IndexOutOfBounds"
    using lt by (cases av) auto
  have ret: "FSR_convertOptions opts = Inr r \<longrightarrow> fsr_version r = min v 3"
    using assms
    by (auto simp: FSR_convertOptions_def RENDER_OPTION_GET_bool_cases
        RENDER_OPTION_GET_uint8_cases RENDER_OPTION_GET_float_cases bindE_def Let_def
        split: option.splits sum.splits)
  have tot: "opts ''taa_enable'' = Some (OBool taa)
              \<and> opts ''fsr_sharpen_enable'' = Some (OBool sh)
              \<and> opts ''fsr_sharpen_sharpness'' = Some (OFloat sharpness)
            \<longrightarrow> FSR_convertOptions opts
                  = Inr \<lparr> taa_enable = taa, fsr_version = min v 3, fsr_sharpen_enable = sh,
                         fsr_sharpen_sharpness = sharpness \<rparr>"
    using assms
    by (simp add: FSR_convertOptions_def RENDER_OPTION_GET_bool_cases
        RENDER_OPTION_GET_uint8_cases RENDER_OPTION_GET_float_cases bindE_def Let_def)
  from le lt idx ret tot show ?thesis by simp
qed

theorem FSR_convertOptions_version_bound_witness:
  "FSR_convertOptions
     (map_of [(''taa_enable'', OBool True), (''fsr_version'', OUInt8 200),
              (''fsr_sharpen_enable'', OBool False), (''fsr_sharpen_sharpness'', OFloat 7)])
   = Inr \<lparr> taa_enable = True, fsr_version = 3, fsr_sharpen_enable = False,
          fsr_sharpen_sharpness = 7 \<rparr>"
  using FSR_convertOptions_version_bound
    [of "map_of [(''taa_enable'', OBool True), (''fsr_version'', OUInt8 200),
                 (''fsr_sharpen_enable'', OBool False),
                 (''fsr_sharpen_sharpness'', OFloat 7)]"
        200 _ _ True False 7]
  by simp

subsection \<open>The seed buffer of the random number generator\<close>

lemma unat_ucast_32_64: "unat (ucast (i :: 32 word) :: 64 word) = unat i"
proof -
  have "unat i < 2 ^ 32"
    using unsigned_less [of i, where 'a = nat] by simp
  then have "unat i < 2 ^ 64"
    by simp
  then show ?thesis
    by (simp add: unsigned_ucast_eq take_bit_nat_eq_self)
qed

lemma ucast_less_iff: "((ucast (i :: 32 word) :: 64 word) < n) \<longleftrightarrow> unat i < unat n"
  by (simp add: word_less_nat_alt unat_ucast_32_64)

lemma unat_seedBufferSize_of:
  "unat (seedBufferSize_of d) = unat (dim_x d) * unat (dim_y d)"
proof -
  have x: "unat (dim_x d) < 2 ^ 32" and y: "unat (dim_y d) < 2 ^ 32"
    using unsigned_less [of "dim_x d", where 'a = nat]
      unsigned_less [of "dim_y d", where 'a = nat] by simp_all
  have "unat (dim_x d) * unat (dim_y d) < 2 ^ 32 * 2 ^ 32"
    using x y by (intro mult_strict_mono) simp_all
  then have "unat (dim_x d) * unat (dim_y d) < 2 ^ 64"
    by simp
  then show ?thesis
    by (simp add: seedBufferSize_of_def unat_word_ariths unat_ucast_32_64)
qed

text \<open>The loop ends when the bound fits the 32-bit counter, with one entry for each step.\<close>

lemma fill_seedBufferData_terminates:
  "unat n < 2 ^ 32 \<Longrightarrow> unat i \<le> unat n \<Longrightarrow> k = unat n - unat i \<Longrightarrow>
   \<exists>data. fill_seedBufferData nx n i g acc = Some data
     \<and> length data = length acc + (unat n - unat i)"
proof (induction k arbitrary: i g acc)
  case 0
  then have "\<not> (ucast i :: 64 word) < n"
    by (simp add: ucast_less_iff)
  then show ?case using 0
    by (subst fill_seedBufferData.simps) simp
next
  case (Suc k)
  then have lt: "unat i < unat n" by simp
  then have i1: "unat (i + 1) = unat i + 1"
    using Suc.prems(1) by (simp add: unat_word_ariths)
  have "\<exists>data. fill_seedBufferData nx n (i + 1) (snd (nx g)) (acc @ [fst (nx g)]) = Some data
     \<and> length data = length (acc @ [fst (nx g)]) + (unat n - unat (i + 1))"
    using Suc.prems lt i1 by (intro Suc.IH) simp_all
  then show ?case
    using lt i1 by (subst fill_seedBufferData.simps) (auto simp: ucast_less_iff)
qed

text \<open>A run of the loop that ends had a bound below \<open>2 ^ 32\<close>: the counter never reaches more.\<close>

lemma fill_seedBufferData_returns_small:
  assumes "fill_seedBufferData nx n i g acc = Some r"
  shows "unat n < 2 ^ 32"
proof (rule fill_seedBufferData.raw_induct
    [where P = "\<lambda>nx n i g acc r. unat n < 2 ^ 32", OF _ assms])
  fix f nx' and n' :: "64 word" and i' :: "32 word" and g' acc' r'
  assume IH: "\<And>a b c d e y. f a b c d e = Some y \<Longrightarrow> unat b < 2 ^ 32"
    and step: "(if ucast i' < n'
      then f nx' n' (i' + 1) (snd (nx' g')) (acc' @ [fst (nx' g')])
      else Some acc') = Some r'"
  show "unat n' < 2 ^ 32"
  proof (cases "(ucast i' :: 64 word) < n'")
    case True
    with step IH show ?thesis by simp
  next
    case False
    then have "unat n' \<le> unat i'"
      by (simp add: ucast_less_iff)
    moreover have "unat i' < 2 ^ 32"
      using unsigned_less [of i', where 'a = nat] by simp
    ultimately show ?thesis by simp
  qed
qed

text \<open>
  C9. The fill loop of \<open>RandomNumberGenerator::init\<close> compares its 32-bit counter with
  the 64-bit \<open>seedBufferSize\<close>. For every render dimension whose padded dimensions
  \<open>max(renderDimensions, (1920, 1080))\<close> have a product below \<open>2 ^ 32\<close> it terminates,
  with exactly \<open>seedBufferSize\<close> entries.
\<close>

theorem seed_fill_loop_terminates:
  assumes "unat (dim_x (seedDimensions_of c)) * unat (dim_y (seedDimensions_of c)) < 2 ^ 32"
  shows "\<exists>seedBufferData.
           fill_seedBufferData gen_next (seedBufferSize_of (seedDimensions_of c)) 0 gen []
             = Some seedBufferData
           \<and> length seedBufferData = unat (seedBufferSize_of (seedDimensions_of c))
           \<and> length seedBufferData
               = unat (dim_x (seedDimensions_of c)) * unat (dim_y (seedDimensions_of c))"
proof -
  let ?n = "seedBufferSize_of (seedDimensions_of c)"
  have n: "unat ?n < 2 ^ 32"
    using assms by (simp add: unat_seedBufferSize_of)
  have "\<exists>data. fill_seedBufferData gen_next ?n 0 gen [] = Some data
     \<and> length data = length ([] :: 32 word list) + (unat ?n - unat (0 :: 32 word))"
    using n by (intro fill_seedBufferData_terminates) simp_all
  then show ?thesis
    by (simp add: unat_seedBufferSize_of)
qed

theorem seed_fill_loop_terminates_witness:
  "\<exists>seedBufferData.
     fill_seedBufferData (mt19937_next counting_random) (1920 * 1080) 0 (5 :: 32 word) []
       = Some seedBufferData
     \<and> length seedBufferData = 2073600"
proof -
  have d: "seedDimensions_of empty_context = uint2 1920 1080"
    by (simp add: seedDimensions_of_def max_uint2_def empty_context_def)
  have s: "seedBufferSize_of (uint2 1920 1080) = 1920 * 1080"
    by (simp add: seedBufferSize_of_def)
  show ?thesis
    using seed_fill_loop_terminates
      [of empty_context "mt19937_next counting_random" "5 :: 32 word"]
    unfolding d s by simp
qed

lemma RandomNumberGenerator_convertOptions_ok:
  "opts ''random_deterministic'' = Some (OBool det) \<Longrightarrow>
   opts ''random_seed'' = Some (OUInt32 seed) \<Longrightarrow>
   RandomNumberGenerator_convertOptions opts
     = Inr \<lparr> random_deterministic = det, random_seed = seed \<rparr>"
  by (simp add: RandomNumberGenerator_convertOptions_def RENDER_OPTION_GET_bool_cases
      RENDER_OPTION_GET_uint32_cases bindE_def)

lemma ownSeedBufferNeeded_ok:
  assumes "hasComponent c ''StratifiedSampler'' \<Longrightarrow>
     ctx_options c ''stratified_sampler_seed'' = Some (OUInt32 sseed)
     \<and> ctx_options c ''stratified_sampler_deterministic'' = Some (OBool sdet)"
  shows "ownSeedBufferNeeded c opts
     = Inr (\<not> (hasComponent c ''StratifiedSampler'' \<and> sseed = random_seed opts
              \<and> sdet = random_deterministic opts))"
proof (cases "hasComponent c ''StratifiedSampler''")
  case False
  then show ?thesis by (simp add: ownSeedBufferNeeded_def)
next
  case True
  with assms show ?thesis
    by (auto simp: ownSeedBufferNeeded_def getOption_uint32_def getOption_bool_def bindE_def)
qed

text \<open>
  C6, as the code has it. Let the options \<open>random_deterministic\<close> and \<open>random_seed\<close>
  be stored under their kinds, as well as the two options of the StratifiedSampler
  when that component exists, and let the padded dimensions
  \<open>max(renderDimensions, (1920, 1080))\<close> have a product below \<open>2 ^ 32\<close>. Then
  \<open>RandomNumberGenerator::init\<close> returns; it leaves its own seed buffer unallocated
  if and only if the StratifiedSampler exists and \<open>stratified_sampler_seed\<close> equals
  \<open>random_seed\<close> and \<open>stratified_sampler_deterministic\<close> equals
  \<open>random_deterministic\<close>; in every other case it allocates a seed buffer whose
  number of 32-bit entries is the product of the padded dimensions.
\<close>

theorem RandomNumberGenerator_init_seedBuffer:
  assumes det: "ctx_options c ''random_deterministic'' = Some (OBool det)"
    and seed: "ctx_options c ''random_seed'' = Some (OUInt32 seed)"
    and strat: "hasComponent c ''StratifiedSampler'' \<Longrightarrow>
       ctx_options c ''stratified_sampler_seed'' = Some (OUInt32 sseed)
       \<and> ctx_options c ''stratified_sampler_deterministic'' = Some (OBool sdet)"
    and size:
      "unat (dim_x (seedDimensions_of c)) * unat (dim_y (seedDimensions_of c)) < 2 ^ 32"
  shows "\<exists>s'. RandomNumberGenerator_init lib c s = Some (Inr (True, s'))
     \<and> (seedBuffer s' = None
          \<longleftrightarrow> hasComponent c ''StratifiedSampler'' \<and> sseed = seed \<and> sdet = det)
     \<and> (seedBuffer s' \<noteq> None
          \<longrightarrow> (\<exists>b. seedBuffer s' = Some b \<and> gfxbuf_stride b = 4
                \<and> unat (gfxbuf_count b)
                    = unat (dim_x (seedDimensions_of c)) * unat (dim_y (seedDimensions_of c))
                \<and> length (gfxbuf_data b)
                    = unat (dim_x (seedDimensions_of c)) * unat (dim_y (seedDimensions_of c))))"
proof -
  let ?opts = "\<lparr> random_deterministic = det, random_seed = seed \<rparr>"
  let ?reuse = "hasComponent c ''StratifiedSampler'' \<and> sseed = seed \<and> sdet = det"
  let ?n = "seedBufferSize_of (seedDimensions_of c)"
  let ?gen = "if det then mt19937_seed lib seed else mt19937_seed lib (random_device lib)"
  have conv: "RandomNumberGenerator_convertOptions (ctx_options c) = Inr ?opts"
    using det seed by (rule RandomNumberGenerator_convertOptions_ok)
  have need: "ownSeedBufferNeeded c ?opts = Inr (\<not> ?reuse)"
    using ownSeedBufferNeeded_ok [OF strat, of ?opts] by simp
  show ?thesis
  proof (cases ?reuse)
    case True
    then have "RandomNumberGenerator_init lib c s
        = Some (Inr (True, s\<lparr> rng_options := ?opts, seedBuffer := None \<rparr>))"
      using conv need by (simp add: RandomNumberGenerator_init_def)
    with True show ?thesis by simp
  next
    case False
    have n: "unat ?n < 2 ^ 32"
      using size by (simp add: unat_seedBufferSize_of)
    have "\<exists>data. fill_seedBufferData (mt19937_next lib) ?n 0 ?gen [] = Some data
       \<and> length data = length ([] :: 32 word list) + (unat ?n - unat (0 :: 32 word))"
      using n by (intro fill_seedBufferData_terminates) simp_all
    then obtain data where fill: "fill_seedBufferData (mt19937_next lib) ?n 0 ?gen [] = Some data"
      and len: "length data = unat ?n"
      by auto
    have lt: "length data < 2 ^ 32"
      using n len by simp
    have cnt: "unat (of_nat (length data) :: 32 word) = length data"
      using lt by (simp add: unat_of_nat)
    have "RandomNumberGenerator_init lib c s
        = Some (Inr (True, s\<lparr> rng_options := ?opts,
            seedBuffer := Some (gfxCreateBuffer_uint32 data
              ''RandomNumberGenerator_SeedBuffer'') \<rparr>))"
      using conv need False fill
      by (cases det) (simp_all add: RandomNumberGenerator_init_def Let_def)
    with False cnt len show ?thesis
      by (simp add: gfxCreateBuffer_uint32_def unat_seedBufferSize_of)
  qed
qed

theorem RandomNumberGenerator_init_seedBuffer_witness:
  "\<exists>s' b. RandomNumberGenerator_init counting_random
       (empty_context \<lparr> ctx_options := map_of
          [(''random_deterministic'', OBool True), (''random_seed'', OUInt32 42)] \<rparr>)
       \<lparr> rng_options = \<lparr> random_deterministic = False, random_seed = 0 \<rparr>,
         seedBuffer = None \<rparr>
     = Some (Inr (True, s'))
     \<and> seedBuffer s' = Some b \<and> unat (gfxbuf_count b) = 2073600"
proof -
  let ?c = "empty_context \<lparr> ctx_options := map_of
          [(''random_deterministic'', OBool True), (''random_seed'', OUInt32 42)] \<rparr>"
  have d: "seedDimensions_of ?c = uint2 1920 1080"
    by (simp add: seedDimensions_of_def max_uint2_def empty_context_def)
  have h: "\<not> hasComponent ?c ''StratifiedSampler''"
    by (simp add: hasComponent_def empty_context_def)
  show ?thesis
    using RandomNumberGenerator_init_seedBuffer
      [of ?c True 42 0 False counting_random
        "\<lparr> rng_options = \<lparr> random_deterministic = False, random_seed = 0 \<rparr>,
           seedBuffer = None \<rparr>"]
      h
    unfolding d by auto
qed

theorem RandomNumberGenerator_init_counterexample:
  "RandomNumberGenerator_init counting_random
     (empty_context \<lparr> ctx_renderDimensions := uint2 65536 65536, ctx_options := map_of
        [(''random_deterministic'', OBool True), (''random_seed'', OUInt32 42)] \<rparr>)
     \<lparr> rng_options = \<lparr> random_deterministic = False, random_seed = 0 \<rparr>,
       seedBuffer = None \<rparr>
   = None"
proof -
  let ?c = "empty_context \<lparr> ctx_renderDimensions := uint2 65536 65536, ctx_options := map_of
        [(''random_deterministic'', OBool True), (''random_seed'', OUInt32 42)] \<rparr>"
  let ?opts = "\<lparr> random_deterministic = True, random_seed = 42 \<rparr>"
  have conv: "RandomNumberGenerator_convertOptions (ctx_options ?c) = Inr ?opts"
    by (rule RandomNumberGenerator_convertOptions_ok) simp_all
  have need: "ownSeedBufferNeeded ?c ?opts = Inr True"
    by (simp add: ownSeedBufferNeeded_def hasComponent_def empty_context_def)
  have d: "seedDimensions_of ?c = uint2 65536 65536"
    by (simp add: seedDimensions_of_def max_uint2_def)
  have big: "\<not> unat (seedBufferSize_of (uint2 65536 65536)) < 2 ^ 32"
    by (simp add: unat_seedBufferSize_of)
  have "fill_seedBufferData (mt19937_next counting_random)
      (seedBufferSize_of (uint2 65536 65536)) 0 (mt19937_seed counting_random 42) [] = None"
  proof (cases "fill_seedBufferData (mt19937_next counting_random)
      (seedBufferSize_of (uint2 65536 65536)) 0 (mt19937_seed counting_random 42) []")
    case None
    then show ?thesis .
  next
    case (Some r)
    then show ?thesis
      using fill_seedBufferData_returns_small [OF Some] big by simp
  qed
  then show ?thesis
    using conv need d by (simp add: RandomNumberGenerator_init_def Let_def)
qed

subsection \<open>The resolver\<close>

lemma bm_and_T_bm_or:
  "bm_and_T (bm_or a b) t \<longleftrightarrow> bm_and_T a t \<or> bm_and_T b t"
  by (auto simp: bm_and_T_def bm_or_def bit.conj_disj_distrib2 or_eq_0_iff)

lemma union_masks_contains:
  "m \<in> set ms \<Longrightarrow> bm_and_T m t \<Longrightarrow> bm_and_T (union_masks ms) t"
  by (induction ms) (auto simp: bm_and_T_bm_or)

lemma merge_groups_error:
  "merge_groups window reqs ns = Inl e \<Longrightarrow> e = ConflictError"
  by (induction ns arbitrary: e)
    (auto simp: bindE_def merge_group_def Let_def split: sum.splits if_splits)

lemma merge_groups_conflict:
  "n \<in> set ns \<Longrightarrow> merge_group window n (group_of reqs n) = Inl ConflictError \<Longrightarrow>
   merge_groups window reqs ns = Inl ConflictError"
proof (induction ns)
  case Nil
  then show ?case by simp
next
  case (Cons a ns)
  show ?case
  proof (cases "merge_groups window reqs (a # ns)")
    case (Inl e)
    then show ?thesis
      using merge_groups_error [of window reqs "a # ns" e] by simp
  next
    case (Inr plan)
    then show ?thesis
      using Cons by (auto simp: bindE_def split: sum.splits)
  qed
qed

lemma requested_names_set: "set (requested_names reqs) = req_name ` set reqs"
  by (simp add: requested_names_def)

text \<open>
  C2. When two requests of one frame (or one request alone) put both the \<open>Clear\<close>
  flag and the \<open>Accumulate\<close> flag on the same resource name, whether they come from
  texture or from buffer declarations, resolution fails with \<open>ConflictError\<close>: no
  plan, and so no merged resource for that name, is produced.
\<close>

theorem Clear_Accumulate_conflict:
  assumes "r1 \<in> set reqs" and "r2 \<in> set reqs" and "req_name r1 = req_name r2"
    and "bm_and_T (req_flags r1) clear" and "bm_and_T (req_flags r2) accumulate"
    and "clear = TextureFlags_val TF_Clear \<or> clear = BufferFlags_val BF_Clear"
    and "accumulate = TextureFlags_val TF_Accumulate
           \<or> accumulate = BufferFlags_val BF_Accumulate"
  shows "resolve window sat reqs = Inl ConflictError"
proof -
  let ?n = "req_name r1"
  let ?g = "group_of reqs ?n"
  have c: "clear = TextureFlags_val TF_Clear"
    and a: "accumulate = TextureFlags_val TF_Accumulate"
    using assms(6,7) by auto
  have "r1 \<in> set ?g" and "r2 \<in> set ?g"
    using assms(1-3) by (simp_all add: group_of_def)
  then have m1: "req_flags r1 \<in> set (map req_flags ?g)"
    and m2: "req_flags r2 \<in> set (map req_flags ?g)"
    by simp_all
  have "bm_and_T (union_masks (map req_flags ?g)) clear"
    using m1 assms(4) by (rule union_masks_contains)
  moreover have "bm_and_T (union_masks (map req_flags ?g)) accumulate"
    using m2 assms(5) by (rule union_masks_contains)
  ultimately have "merge_group window ?n ?g = Inl ConflictError"
    unfolding c a by (simp add: merge_group_def)
  moreover have "?n \<in> set (requested_names reqs)"
    using assms(1) by (simp add: requested_names_set)
  ultimately have "merge_groups window reqs (requested_names reqs) = Inl ConflictError"
    by (rule merge_groups_conflict [rotated])
  then show ?thesis
    by (simp add: resolve_def bindE_def)
qed

theorem Clear_Accumulate_conflict_witness:
  "resolve (uint2 1920 1080) (\<lambda>p. False)
     [request_of_texture (SharedTexture_default ''Color''
        \<lparr> tex_flags := BitMask_of (TextureFlags_val TF_Clear) \<rparr>),
      request_of_texture (SharedTexture_default ''Depth''),
      request_of_texture (SharedTexture_default ''Color''
        \<lparr> tex_flags := bm_or_T (BitMask_of (TextureFlags_val TF_Optional))
            (TextureFlags_val TF_Accumulate), tex_require := ''taa_enable'' \<rparr>)]
   = Inl ConflictError"
  using Clear_Accumulate_conflict
    [of "request_of_texture (SharedTexture_default ''Color''
           \<lparr> tex_flags := BitMask_of (TextureFlags_val TF_Clear) \<rparr>)"
        "[request_of_texture (SharedTexture_default ''Color''
            \<lparr> tex_flags := BitMask_of (TextureFlags_val TF_Clear) \<rparr>),
          request_of_texture (SharedTexture_default ''Depth''),
          request_of_texture (SharedTexture_default ''Color''
            \<lparr> tex_flags := bm_or_T (BitMask_of (TextureFlags_val TF_Optional))
                (TextureFlags_val TF_Accumulate), tex_require := ''taa_enable'' \<rparr>)]"
        "request_of_texture (SharedTexture_default ''Color''
           \<lparr> tex_flags := bm_or_T (BitMask_of (TextureFlags_val TF_Optional))
               (TextureFlags_val TF_Accumulate), tex_require := ''taa_enable'' \<rparr>)"
        "TextureFlags_val TF_Clear" "TextureFlags_val TF_Accumulate"
        "uint2 1920 1080" "\<lambda>p. False"]
  by (simp add: request_of_texture_def SharedTexture_default_def bm_and_T_def bm_or_T_def
      BitMask_of_def)

lemma merge_group_name: "merge_group window n g = Inr res \<Longrightarrow> res_name res = n"
  by (auto simp: merge_group_def Let_def split: if_splits)

lemma merge_groups_names:
  "merge_groups window reqs ns = Inr merged \<Longrightarrow> res_name ` fst ` set merged \<subseteq> set ns"
proof (induction ns arbitrary: merged)
  case Nil
  then show ?case by simp
next
  case (Cons a ns)
  from Cons.prems obtain res rest
    where res: "merge_group window a (group_of reqs a) = Inr res"
      and rest: "merge_groups window reqs ns = Inr rest"
      and merged: "merged = (res, group_of reqs a) # rest"
    by (auto simp: bindE_def split: sum.splits)
  from Cons.IH [OF rest] merge_group_name [OF res] show ?case
    unfolding merged by auto
qed

lemma applicability_names:
  "applicability sat merged = Inr plan \<Longrightarrow> set plan \<subseteq> fst ` set merged"
proof (induction merged arbitrary: plan)
  case Nil
  then show ?case by simp
next
  case (Cons a merged)
  obtain res g where a: "a = (res, g)"
    by (cases a)
  from Cons.prems obtain rest where rest: "applicability sat merged = Inr rest"
    and plan: "plan = rest \<or> plan = res # rest"
    unfolding a by (auto simp: bindE_def split: sum.splits if_splits)
  from Cons.IH [OF rest] plan show ?case
    unfolding a by auto
qed

lemma resolve_names:
  assumes "resolve window sat reqs = Inr plan"
  shows "res_name ` set plan \<subseteq> req_name ` set reqs"
proof -
  from assms obtain merged
    where m: "merge_groups window reqs (requested_names reqs) = Inr merged"
      and a: "applicability sat merged = Inr plan"
    by (auto simp: resolve_def bindE_def split: sum.splits)
  from applicability_names [OF a] have "res_name ` set plan \<subseteq> res_name ` fst ` set merged"
    by blast
  with merge_groups_names [OF m] show ?thesis
    by (simp add: requested_names_set)
qed

lemma collect_buffer_requests_names:
  assumes "r \<in> set (collect_buffer_requests cs)"
  shows "\<exists>c b. c \<in> set cs \<and> contributes c \<and> b \<in> set (con_buffers c)
           \<and> req_name r = buf_name b"
proof -
  from assms obtain c b where "c \<in> set cs" and "contributes c"
    and "b \<in> set (con_buffers c)" and "r = request_of_buffer b"
    by (auto simp: collect_buffer_requests_def)
  then show ?thesis
    by (auto simp: request_of_buffer_def)
qed

text \<open>
  C4. \<open>FSR::getSharedBuffers\<close> declares exactly one shared buffer, named
  \<open>Exposure\<close>, with \<open>Write\<close> access and the \<open>OptionalDiscard\<close> flag. In a frame in
  which FSR is disabled and no other contributor requests \<open>Exposure\<close>, the plan the
  resolver produces has no \<open>Exposure\<close>, and \<open>hasResource\<close>, which reads that one plan
  for every contributor, is false for it.
\<close>

theorem Exposure_absent_when_owner_disabled:
  assumes "\<not> contributes (FSR_contributor st)"
    and "\<forall>c \<in> set (before @ after). \<forall>b \<in> set (con_buffers c). buf_name b \<noteq> ''Exposure''"
    and "resolve window sat
           (collect_buffer_requests (before @ [FSR_contributor st] @ after)) = Inr plan"
  shows "map buf_name FSR_getSharedBuffers = [''Exposure'']
     \<and> map buf_access FSR_getSharedBuffers = [BitMask_of (Access_val Write)]
     \<and> map buf_flags FSR_getSharedBuffers = [BitMask_of (BufferFlags_val BF_OptionalDiscard)]
     \<and> ''Exposure'' \<notin> set (map res_name plan)
     \<and> \<not> hasResource plan ''Exposure''"
proof -
  have decl: "map buf_name FSR_getSharedBuffers = [''Exposure'']
     \<and> map buf_access FSR_getSharedBuffers = [BitMask_of (Access_val Write)]
     \<and> map buf_flags FSR_getSharedBuffers = [BitMask_of (BufferFlags_val BF_OptionalDiscard)]"
    by (simp add: FSR_getSharedBuffers_def SharedBuffer_default_def)
  have "''Exposure'' \<notin> req_name `
      set (collect_buffer_requests (before @ [FSR_contributor st] @ after))"
  proof
    assume "''Exposure'' \<in> req_name `
      set (collect_buffer_requests (before @ [FSR_contributor st] @ after))"
    then obtain r where "r \<in> set (collect_buffer_requests (before @ [FSR_contributor st] @ after))"
      and "req_name r = ''Exposure''"
      by auto
    with collect_buffer_requests_names [of r] obtain c b
      where c: "c \<in> set (before @ [FSR_contributor st] @ after)" and "contributes c"
        and "b \<in> set (con_buffers c)" and "buf_name b = ''Exposure''"
      by metis
    with assms(1) have "c \<in> set (before @ after)"
      by auto
    with assms(2) \<open>b \<in> set (con_buffers c)\<close> \<open>buf_name b = ''Exposure''\<close> show False
      by blast
  qed
  with resolve_names [OF assms(3)] have "''Exposure'' \<notin> res_name ` set plan"
    by blast
  with decl show ?thesis
    by (simp add: hasResource_def)
qed

theorem Exposure_absent_when_owner_disabled_witness:
  "\<exists>plan. resolve (uint2 1920 1080) (\<lambda>p. False)
       (collect_buffer_requests
          ([\<lparr> con_name = ''GBuffer'', con_state = Running,
              con_buffers = [SharedBuffer_default ''Meshlets''], con_textures = [] \<rparr>]
           @ [FSR_contributor Uninitialized] @ [])) = Inr plan
     \<and> map res_name plan = [''Meshlets'']
     \<and> \<not> hasResource plan ''Exposure''"
proof -
  let ?g = "\<lparr> con_name = ''GBuffer'', con_state = Running,
              con_buffers = [SharedBuffer_default ''Meshlets''], con_textures = [] \<rparr>"
  let ?reqs = "collect_buffer_requests ([?g] @ [FSR_contributor Uninitialized] @ [])"
  have reqs: "?reqs = [request_of_buffer (SharedBuffer_default ''Meshlets'')]"
    by (simp add: collect_buffer_requests_def contributes_def FSR_contributor_def)
  have r: "resolve (uint2 1920 1080) (\<lambda>p. False) ?reqs
      = Inr [\<lparr> res_name = ''Meshlets'', res_access = BitMask 0, res_flags = BitMask 0,
               res_format = 0, res_dimensions = uint2 1920 1080, res_cleared = False \<rparr>]"
    unfolding reqs
    by (simp add: resolve_def requested_names_def group_of_def merge_group_def bindE_def
        Let_def request_of_buffer_def SharedBuffer_default_def BitMask_of_def BitMask_default_def
        bm_or_def bm_and_T_def is_optional_def require_ok_def DXGI_FORMAT_UNKNOWN_def)
  have "\<not> hasResource
      [\<lparr> res_name = ''Meshlets'', res_access = BitMask 0, res_flags = BitMask 0,
         res_format = 0, res_dimensions = uint2 1920 1080, res_cleared = False \<rparr>]
      ''Exposure''"
    using Exposure_absent_when_owner_disabled
      [of Uninitialized "[?g]" "[]" "uint2 1920 1080" "\<lambda>p. False", OF _ _ r]
    by (simp add: contributes_def FSR_contributor_def SharedBuffer_default_def)
  with r show ?thesis
    by simp
qed

subsection \<open>The render step\<close>

lemma trace_of_emit: "trace_of (emit t m) = t @ trace_of m"
  by (cases m) simp_all

lemma trace_of_andThen:
  "trace_of (andThen m f)
     = (case m of Failed e t \<Rightarrow> t | Returned a s t \<Rightarrow> t @ trace_of (f a s))"
  by (cases m) (simp_all add: andThen_def trace_of_emit)

lemma all_andThen:
  "list_all P (trace_of m) \<Longrightarrow> (\<And>a s. list_all P (trace_of (f a s))) \<Longrightarrow>
   list_all P (trace_of (andThen m f))"
  by (cases m) (simp_all add: andThen_def trace_of_emit)

lemma all_lookupTexture:
  "P (GetSharedTexture n True) \<Longrightarrow> P (GetSharedTexture n False) \<Longrightarrow>
   (\<And>t. list_all P (trace_of (k t))) \<Longrightarrow> list_all P (trace_of (lookupTexture c n k))"
  by (simp add: lookupTexture_def trace_of_emit split: sum.splits)

lemma all_lookupBuffer:
  "P (GetSharedBuffer n True) \<Longrightarrow> P (GetSharedBuffer n False) \<Longrightarrow>
   (\<And>t. list_all P (trace_of (k t))) \<Longrightarrow> list_all P (trace_of (lookupBuffer c n k))"
  by (simp add: lookupBuffer_def trace_of_emit split: sum.splits)

lemma FSR_version_override_events:
  "list_all init_event (trace_of (FSR_version_override dev ae names ids s))"
  by (simp add: FSR_version_override_def split: sum.splits)

lemma FSR_init_context_events:
  "list_all init_event (trace_of (FSR_init_context dev ae names ids s))"
proof (cases "FSR_version_override dev ae names ids s")
  case (Failed e t)
  with FSR_version_override_events [of dev ae names ids s] show ?thesis
    by (simp add: FSR_init_context_def andThen_def)
next
  case (Returned ok s1 t)
  with FSR_version_override_events [of dev ae names ids s] show ?thesis
    by (simp add: FSR_init_context_def andThen_def trace_of_emit split: option.splits)
qed

lemma FSR_init_events: "list_all init_event (trace_of (FSR_init c dev s))"
  by (simp add: FSR_init_def Let_def trace_of_emit FSR_init_context_events split: sum.splits)

lemma no_terminate_flush:
  "list_all (\<lambda>e. e \<noteq> Terminate) t \<Longrightarrow> flush_precedes_terminate fl t"
  by (induction fl t rule: flush_precedes_terminate.induct) simp_all

lemma flush_append:
  "list_all (\<lambda>e. e \<noteq> Terminate) t' \<Longrightarrow>
   flush_precedes_terminate fl (t @ t') = flush_precedes_terminate fl t"
  by (induction fl t rule: flush_precedes_terminate.induct) (simp_all add: no_terminate_flush)

lemma init_event_neither: "init_event e \<Longrightarrow> e \<noteq> Terminate \<and> \<not> texture_event e"
  by (cases e) simp_all

lemma init_event_all:
  "list_all init_event t \<Longrightarrow>
   list_all (\<lambda>e. e \<noteq> Terminate) t \<and> list_all (\<lambda>e. \<not> texture_event e) t"
  by (induction t) (simp_all add: init_event_neither)

lemma FSR_render_dispatch_no_terminate:
  "list_all (\<lambda>e. e \<noteq> Terminate) (trace_of (FSR_render_dispatch c s))"
  unfolding FSR_render_dispatch_def Let_def
  by (auto simp: trace_of_emit intro!: all_lookupTexture)

lemma FSR_render_upscale_no_terminate:
  "list_all (\<lambda>e. e \<noteq> Terminate) (trace_of (FSR_render_upscale c s))"
  unfolding FSR_render_upscale_def Let_def
  by (auto simp: trace_of_emit FSR_render_dispatch_no_terminate intro!: all_lookupBuffer)

lemma quiet_guarded:
  "list_all (\<lambda>e. \<not> texture_event e) t \<Longrightarrow>
   guarded_lookup n seen (t @ t') = guarded_lookup n seen t'"
  by (induction n seen t rule: guarded_lookup.induct) simp_all

lemma quiet_guarded_all:
  "list_all (\<lambda>e. \<not> texture_event e) t \<Longrightarrow> guarded_lookup n seen t"
  using quiet_guarded [of t n seen "[]"] by simp

lemma FSR_render_dispatch_guarded:
  "guarded_lookup ''ColorScaled'' seen (trace_of (FSR_render_dispatch c s))"
  by (simp add: FSR_render_dispatch_def Let_def trace_of_emit lookupTexture_def
      getSharedTexture_def hasSharedTexture_def split: option.splits)

lemma FSR_render_upscale_guarded:
  "guarded_lookup ''ColorScaled'' seen (trace_of (FSR_render_upscale c s))"
  by (simp add: FSR_render_upscale_def Let_def trace_of_emit lookupBuffer_def
      FSR_render_dispatch_guarded split: sum.splits)

lemma FSR_render_guarded: "guarded_lookup ''ColorScaled'' False (trace_of (FSR_render c dev s))"
proof -
  have tail: "guarded_lookup ''ColorScaled'' seen
      (trace_of (andThen (FSR_init c dev s') (\<lambda>ok s3.
          if \<not> ok then Returned () s3 [] else FSR_render_upscale c s3)))" for s' seen
    using init_event_all [OF FSR_init_events [of c dev s']]
    by (cases "FSR_init c dev s'")
      (simp_all add: andThen_def trace_of_emit quiet_guarded quiet_guarded_all
        FSR_render_upscale_guarded)
  show ?thesis
    by (simp add: FSR_render_def Let_def FSR_terminate_def trace_of_emit tail
        FSR_render_upscale_guarded split: sum.splits)
qed

lemma ToneMapping_select_views_guarded:
  assumes "\<And>i out. guarded_lookup ''ColorScaled'' seen (trace_of (k i out))"
    and "hasSharedTexture c ''ColorScaled'' \<longrightarrow> seen"
  shows "guarded_lookup ''ColorScaled'' seen (trace_of (ToneMapping_select_views c us input k))"
  using assms
  by (auto simp: ToneMapping_select_views_def Let_def trace_of_emit lookupTexture_def
      getSharedTexture_def hasSharedTexture_def checkDebugViewSharedTexture_def
      split: option.splits)

lemma ToneMapping_render_body_guarded:
  "guarded_lookup ''ColorScaled'' seen (trace_of (ToneMapping_render_body c s))"
proof -
  have k: "guarded_lookup ''ColorScaled'' seen'
      (trace_of (lookupBuffer c ''Exposure'' (\<lambda>exposure. Returned () s [Dispatch])))"
    for seen'
    by (simp add: lookupBuffer_def split: sum.splits)
  have sel: "guarded_lookup ''ColorScaled'' (seen \<or> hasSharedTexture c ''ColorScaled'')
      (trace_of (ToneMapping_select_views c us input (\<lambda>input' output.
          lookupBuffer c ''Exposure'' (\<lambda>exposure. Returned () s [Dispatch]))))" for us input
    by (rule ToneMapping_select_views_guarded) (simp_all add: k)
  show ?thesis
    using sel
    by (auto simp: ToneMapping_render_body_def Let_def trace_of_emit lookupTexture_def
        getSharedTexture_def hasSharedTexture_def split: option.splits sum.splits)
qed

lemma ToneMapping_initToneMapKernel_events:
  "ToneMapping_initToneMapKernel fp dev s = (ok, s', t) \<Longrightarrow> list_all init_event t"
  by (auto simp: ToneMapping_initToneMapKernel_def Let_def)

lemma ToneMapping_init_events:
  "list_all init_event (trace_of (ToneMapping_init fp c dev s))"
  by (auto simp: ToneMapping_init_def Let_def split: sum.splits prod.splits
      dest: ToneMapping_initToneMapKernel_events)

lemma ToneMapping_render_guarded:
  "guarded_lookup ''ColorScaled'' False (trace_of (ToneMapping_render fp c dev s))"
proof -
  have tail: "guarded_lookup ''ColorScaled'' seen
      (trace_of (andThen (ToneMapping_init fp c dev s') (\<lambda>ok s2.
          if \<not> ok then Returned () s2 [] else ToneMapping_render_body c s2)))" for s' seen
    using init_event_all [OF ToneMapping_init_events [of fp c dev s']]
    by (cases "ToneMapping_init fp c dev s'")
      (simp_all add: andThen_def trace_of_emit quiet_guarded quiet_guarded_all
        ToneMapping_render_body_guarded)
  have kern: "guarded_lookup ''ColorScaled'' seen
      (trace_of (case ToneMapping_initToneMapKernel fp dev s' of
         (ok, s2, t) \<Rightarrow> if \<not> ok then Returned () s2 t
            else emit t (ToneMapping_render_body c s2)))" for s' seen
  proof -
    obtain ok s2 t where k: "ToneMapping_initToneMapKernel fp dev s' = (ok, s2, t)"
      by (cases "ToneMapping_initToneMapKernel fp dev s'")
    from init_event_all [OF ToneMapping_initToneMapKernel_events [OF k]] show ?thesis
      by (simp add: k trace_of_emit quiet_guarded quiet_guarded_all
          ToneMapping_render_body_guarded)
  qed
  show ?thesis
    by (simp add: ToneMapping_render_def Let_def ToneMapping_terminate_def tail kern
        ToneMapping_render_body_guarded split: sum.splits)
qed

lemma ToneMapping_render_body_no_flush:
  "list_all (\<lambda>e. e \<noteq> GfxFinish) (trace_of (ToneMapping_render_body c s))"
  unfolding ToneMapping_render_body_def ToneMapping_select_views_def Let_def
  by (auto simp: trace_of_emit intro!: all_lookupTexture all_lookupBuffer split: sum.splits)


lemma init_event_not_flush: "list_all init_event t \<Longrightarrow> list_all (\<lambda>e. e \<noteq> GfxFinish) t"
proof (induction t)
  case Nil
  then show ?case by simp
next
  case (Cons e t)
  then show ?case by (cases e) simp_all
qed

lemma ToneMapping_render_no_flush:
  "list_all (\<lambda>e. e \<noteq> GfxFinish) (trace_of (ToneMapping_render fp c dev s))"
proof -
  have tail: "list_all (\<lambda>e. e \<noteq> GfxFinish)
      (trace_of (andThen (ToneMapping_init fp c dev s') (\<lambda>ok s2.
          if \<not> ok then Returned () s2 [] else ToneMapping_render_body c s2)))" for s'
    using init_event_not_flush [OF ToneMapping_init_events [of fp c dev s']]
    by (intro all_andThen) (simp_all add: ToneMapping_render_body_no_flush)
  have kern: "list_all (\<lambda>e. e \<noteq> GfxFinish)
      (trace_of (case ToneMapping_initToneMapKernel fp dev s' of
         (ok, s2, t) \<Rightarrow> if \<not> ok then Returned () s2 t
            else emit t (ToneMapping_render_body c s2)))" for s'
  proof -
    obtain ok s2 t where k: "ToneMapping_initToneMapKernel fp dev s' = (ok, s2, t)"
      by (cases "ToneMapping_initToneMapKernel fp dev s'")
    from init_event_not_flush [OF ToneMapping_initToneMapKernel_events [OF k]] show ?thesis
      by (simp add: k trace_of_emit ToneMapping_render_body_no_flush)
  qed
  show ?thesis
    by (simp add: ToneMapping_render_def Let_def ToneMapping_terminate_def tail kern
        ToneMapping_render_body_no_flush split: sum.splits)
qed

lemma ToneMapping_render_disable:
  "ToneMapping_convertOptions (ctx_options c) = Inr newOptions \<Longrightarrow>
   \<not> tonemap_enable newOptions \<Longrightarrow> tonemap_enable (tm_options s) \<Longrightarrow>
   trace_of (ToneMapping_render fp c dev s) = [Terminate, DestroyKernel, DestroyProgram]"
  by (simp add: ToneMapping_render_def ToneMapping_terminate_def)

text \<open>
  C1, as the code has it. In every execution of \<open>FSR::render\<close>, each call of
  \<open>terminate()\<close> (which destroys the FidelityFX upscale context) comes after a
  \<open>gfxFinish\<close> of that execution, with no GPU command recorded between the two.
\<close>

theorem flush_before_terminate:
  "flush_precedes_terminate False (trace_of (FSR_render c dev s))"
proof -
  have tail: "list_all (\<lambda>e. e \<noteq> Terminate)
      (trace_of (andThen (FSR_init c dev s') (\<lambda>ok s3.
          if \<not> ok then Returned () s3 [] else FSR_render_upscale c s3)))" for s'
    using init_event_all [OF FSR_init_events]
    by (intro all_andThen) (simp_all add: FSR_render_upscale_no_terminate)
  show ?thesis
    by (auto simp: FSR_render_def Let_def FSR_terminate_def trace_of_emit flush_append tail
        no_terminate_flush FSR_render_upscale_no_terminate
        split: sum.splits)
qed

lemma ToneMapping_disable_example:
  "ToneMapping_convertOptions
     (ctx_options (empty_context \<lparr> ctx_options := ToneMapping_option_list False 5 \<rparr>))
   = Inr \<lparr> tonemap_enable = False, tonemap_operator = 5 \<rparr>"
  by (simp add: ToneMapping_convertOptions_def RENDER_OPTION_GET_bool_cases
      RENDER_OPTION_GET_uint8_cases bindE_def ToneMapping_option_list_def)

lemma FSR_option_list_convert:
  "FSR_convertOptions (FSR_option_list taa version)
   = Inr \<lparr> taa_enable = taa, fsr_version = min version 3, fsr_sharpen_enable = True,
          fsr_sharpen_sharpness = 0 \<rparr>"
  by (simp add: FSR_convertOptions_def RENDER_OPTION_GET_bool_cases
      RENDER_OPTION_GET_uint8_cases RENDER_OPTION_GET_float_cases bindE_def Let_def
      FSR_option_list_def)

theorem flush_before_terminate_witness:
  "trace_of (FSR_render (empty_context \<lparr> ctx_options := FSR_option_list False 0 \<rparr>)
      example_device example_FSR)
   = [GfxFinish, Terminate, DestroyContext, DestroyTexture]
   \<and> flush_precedes_terminate False [GfxFinish, Terminate, DestroyContext, DestroyTexture]"
proof -
  let ?c = "empty_context \<lparr> ctx_options := FSR_option_list False 0 \<rparr>"
  have t: "trace_of (FSR_render ?c example_device example_FSR)
      = [GfxFinish, Terminate, DestroyContext, DestroyTexture]"
    by (simp add: FSR_render_def FSR_option_list_convert FSR_terminate_def example_FSR_def)
  from flush_before_terminate [of ?c example_device example_FSR] t
  show ?thesis
    by simp
qed

text \<open>
  \<open>ToneMapping::render\<close>, with tone mapping enabled before and switched off by the
  options, calls \<open>terminate()\<close> first thing: no \<open>gfxFinish\<close> comes before it.
\<close>

theorem ToneMapping_terminate_without_flush_counterexample:
  "\<not> flush_precedes_terminate False
       (trace_of (ToneMapping_render zero_float_ops
          (empty_context \<lparr> ctx_options := ToneMapping_option_list False 5 \<rparr>)
          example_device example_ToneMapping))"
proof -
  have "trace_of (ToneMapping_render zero_float_ops
          (empty_context \<lparr> ctx_options := ToneMapping_option_list False 5 \<rparr>)
          example_device example_ToneMapping)
      = [Terminate, DestroyKernel, DestroyProgram]"
    using ToneMapping_disable_example
    by (rule ToneMapping_render_disable) (simp_all add: example_ToneMapping_def)
  then show ?thesis
    by simp
qed

text \<open>
  C5. In every execution of \<open>ToneMapping::render\<close> and of \<open>FSR::render\<close>, each
  \<open>getSharedTexture("ColorScaled")\<close> comes after a \<open>hasSharedTexture("ColorScaled")\<close>
  of the same execution that returned true, and finds the texture: the lookup of that
  resource never takes its \<open>NotFoundError\<close> branch.
\<close>

theorem ColorScaled_lookup_guarded:
  "guarded_lookup ''ColorScaled'' False (trace_of (ToneMapping_render fp c dev s))
   \<and> guarded_lookup ''ColorScaled'' False (trace_of (FSR_render c' dev' s'))"
  using ToneMapping_render_guarded [of fp c dev s] FSR_render_guarded [of c' dev' s']
  by blast

theorem ColorScaled_lookup_guarded_witness:
  "trace_of (FSR_render
      (empty_context \<lparr> ctx_options := FSR_option_list True 0,
         ctx_sharedTextures := example_textures, ctx_renderScaleBelowOne := True,
         ctx_frameIndex := 1 \<rparr>)
      example_device example_FSR)
   = [HasSharedTexture ''ColorScaled'' True, GetSharedTexture ''Color'' True,
      GetSharedTexture ''ColorScaled'' True, GetSharedTexture ''VisibilityDepth'' True,
      GetSharedTexture ''Velocity'' True, Dispatch]
   \<and> guarded_lookup ''ColorScaled'' False
       [HasSharedTexture ''ColorScaled'' True, GetSharedTexture ''Color'' True,
        GetSharedTexture ''ColorScaled'' True, GetSharedTexture ''VisibilityDepth'' True,
        GetSharedTexture ''Velocity'' True, Dispatch]"
proof -
  let ?c = "empty_context \<lparr> ctx_options := FSR_option_list True 0,
         ctx_sharedTextures := example_textures, ctx_renderScaleBelowOne := True,
         ctx_frameIndex := 1 \<rparr>"
  have t: "trace_of (FSR_render ?c example_device example_FSR)
      = [HasSharedTexture ''ColorScaled'' True, GetSharedTexture ''Color'' True,
         GetSharedTexture ''ColorScaled'' True, GetSharedTexture ''VisibilityDepth'' True,
         GetSharedTexture ''Velocity'' True, Dispatch]"
    by (simp add: FSR_render_def FSR_option_list_convert example_FSR_def empty_context_def
        FSR_render_upscale_def FSR_render_dispatch_def Let_def lookupTexture_def
        getSharedTexture_def hasSharedTexture_def example_textures_def)
  from ColorScaled_lookup_guarded
    [of zero_float_ops ?c example_device example_ToneMapping ?c example_device example_FSR]
  have "guarded_lookup ''ColorScaled'' False (trace_of (FSR_render ?c example_device example_FSR))"
    by blast
  with t show ?thesis
    by simp
qed

subsection \<open>Lights\<close>

text \<open>
  C10. The light constructors round-trip through the packed type tag: for all
  arguments, \<open>get_light_type\<close> returns \<open>kLight_Point\<close> on the result of
  \<open>MakePointLight\<close>, \<open>kLight_Spot\<close> on that of \<open>MakeSpotLight\<close>, \<open>kLight_Direction\<close>
  on that of \<open>MakeDirectionalLight\<close>, \<open>kLight_Environment\<close> on that of
  \<open>MakeEnvironmentLight\<close> and \<open>kLight_Area\<close> on that of the untextured
  \<open>MakeAreaLight\<close>.
\<close>

theorem light_type_roundtrip:
  "get_light_type (MakePointLight intensity position rng) = kLight_Point
   \<and> get_light_type (MakeSpotLight fp intensity position rng direction outer inner)
       = kLight_Spot
   \<and> get_light_type (MakeDirectionalLight fp rad direction rng) = kLight_Direction
   \<and> get_light_type (MakeEnvironmentLight mips width) = kLight_Environment
   \<and> get_light_type (MakeAreaLight rad vertex1 vertex2 vertex3) = kLight_Area"
proof -
  have area: "get_light_type (MakeAreaLight rad vertex1 vertex2 vertex3) = kLight_Area"
    by (cases vertex3)
      (simp add: get_light_type_def MakeAreaLight_def float4_xyz_w_def asuint_def
        f_zero_def kLight_Point_def)
  have point: "get_light_type (MakePointLight intensity position rng) = kLight_Point"
    by (simp add: get_light_type_def MakePointLight_def float4_xyz_w_def asuint_def
        uintBitsToFloat_def)
  have spot:
    "get_light_type (MakeSpotLight fp intensity position rng direction outer inner)
       = kLight_Spot"
    by (simp add: get_light_type_def MakeSpotLight_def Let_def asuint_def
        uintBitsToFloat_def kLight_Spot_def kLight_Point_def)
  have dir: "get_light_type (MakeDirectionalLight fp rad direction rng) = kLight_Direction"
    by (simp add: get_light_type_def MakeDirectionalLight_def float4_xyz_w_def asuint_def
        uintBitsToFloat_def kLight_Direction_def kLight_Spot_def kLight_Point_def)
  have env: "get_light_type (MakeEnvironmentLight mips width) = kLight_Environment"
    by (simp add: get_light_type_def MakeEnvironmentLight_def float4_xyz_w_def asuint_def
        uintBitsToFloat_def kLight_Environment_def kLight_Direction_def kLight_Spot_def
        kLight_Point_def)
  from area point spot dir env show ?thesis by simp
qed

end
